theory Spec2Isabelle
  imports Complex_Main "HOL-Library.AList" "HOL-Library.Log_Nat" "HOL-Library.Multiset"
begin

section \<open>Rows of the six tables\<close>

text \<open>
  Modelled from the spec: the table declarations of \<^verbatim>\<open>@shared/schema\<close> are not part of the
  sources at hand, so the row shapes follow the entity table of the specification. A stored row
  carries the generated identity and the generated timestamp; the \<^verbatim>\<open>Insert...\<close> record of the
  same entity carries the caller-supplied fields only. Identities are JavaScript numbers that
  hold integers, timestamps are readings of the database clock.
\<close>

record user =
  user_id :: int
  user_name :: string
  user_email :: string
  user_role :: string
  user_status :: string
  user_joinedAt :: nat

record insert_user =
  new_user_name :: string
  new_user_email :: string
  new_user_role :: string
  new_user_status :: string

record place =
  place_id :: int
  place_name :: string
  place_description :: string
  place_location :: string
  place_category :: string
  place_imageUrl :: string
  place_rating :: string
  place_status :: string
  place_amenities :: string
  place_coordinates :: string
  place_createdAt :: nat

record insert_place =
  new_place_name :: string
  new_place_description :: string
  new_place_location :: string
  new_place_category :: string
  new_place_imageUrl :: string
  new_place_rating :: string
  new_place_status :: string
  new_place_amenities :: string
  new_place_coordinates :: string

record playlist =
  playlist_id :: int
  playlist_name :: string
  playlist_description :: string
  playlist_creatorId :: int
  playlist_creatorName :: string
  playlist_status :: string
  playlist_placesCount :: int
  playlist_isFeatured :: bool
  playlist_visibility :: string
  playlist_createdAt :: nat

record insert_playlist =
  new_playlist_name :: string
  new_playlist_description :: string
  new_playlist_creatorId :: int
  new_playlist_creatorName :: string
  new_playlist_status :: string
  new_playlist_placesCount :: int
  new_playlist_isFeatured :: bool
  new_playlist_visibility :: string

record trip =
  trip_id :: int
  trip_userId :: int
  trip_destination :: string
  trip_status :: string

record insert_trip =
  new_trip_userId :: int
  new_trip_destination :: string
  new_trip_status :: string

record review =
  review_id :: int
  review_userId :: int
  review_userName :: string
  review_placeId :: int
  review_placeName :: string
  review_content :: string
  review_rating :: string
  review_status :: string
  review_createdAt :: nat

record insert_review =
  new_review_userId :: int
  new_review_userName :: string
  new_review_placeId :: int
  new_review_placeName :: string
  new_review_content :: string
  new_review_rating :: string
  new_review_status :: string

record photo =
  photo_id :: int
  photo_uploaderId :: int
  photo_uploaderName :: string
  photo_url :: string
  photo_caption :: string
  photo_relatedType :: string
  photo_relatedId :: int
  photo_status :: string
  photo_createdAt :: nat

record insert_photo =
  new_photo_uploaderId :: int
  new_photo_uploaderName :: string
  new_photo_url :: string
  new_photo_caption :: string
  new_photo_relatedType :: string
  new_photo_relatedId :: int
  new_photo_status :: string

record StatsResponse =
  totalTrips :: nat
  totalPlaylists :: nat
  totalPlaces :: nat
  activeUsers :: nat
  pendingReviews :: nat

section \<open>The relational store and the calls that reach it\<close>

text \<open>
  A table is the list of its rows in insertion order, together with the next value of its
  identity sequence. Every method of \<^verbatim>\<open>DatabaseStorage\<close> awaits exactly one query of the
  external \<^verbatim>\<open>db\<close> object. That query may throw (the database may be offline or may reject the
  statement), and an insert
  reads the database clock for the generated timestamp. Both are outside the program, so the
  world records them as two schedules indexed by the number of queries issued so far:
  \<open>faults w k\<close> says that query number \<open>k\<close> throws, \<open>clock w k\<close> is what the clock reads then.
\<close>

record database =
  users_tbl :: "user list"
  places_tbl :: "place list"
  playlists_tbl :: "playlist list"
  trips_tbl :: "trip list"
  reviews_tbl :: "review list"
  photos_tbl :: "photo list"
  users_seq :: int
  places_seq :: int
  playlists_seq :: int
  trips_seq :: int
  reviews_seq :: int
  photos_seq :: int

record world =
  db :: database
  calls :: nat
  faults :: "nat \<Rightarrow> bool"
  clock :: "nat \<Rightarrow> nat"

record zod_issue =
  issue_path :: "string list"
  issue_message :: string

datatype exn = DbError | ZodError "zod_issue list" | TypeError

type_synonym 'a io = "world \<Rightarrow> (exn + 'a) \<times> world"

definition io_return :: "'a \<Rightarrow> 'a io" where
  "io_return x = (\<lambda>w. (Inr x, w))"

definition io_throw :: "exn \<Rightarrow> 'a io" where
  "io_throw e = (\<lambda>w. (Inl e, w))"

text \<open>\<open>io_bind m f\<close> is \<^verbatim>\<open>const x = await m; f(x)\<close>: an exception of \<open>m\<close> skips \<open>f\<close>.\<close>

definition io_bind :: "'a io \<Rightarrow> ('a \<Rightarrow> 'b io) \<Rightarrow> 'b io" where
  "io_bind m f = (\<lambda>w. case m w of (Inl e, w') \<Rightarrow> (Inl e, w') | (Inr x, w') \<Rightarrow> f x w')"

text \<open>\<open>io_catch m h\<close> is \<^verbatim>\<open>try { m } catch (err) { h(err) }\<close>.\<close>

definition io_catch :: "'a io \<Rightarrow> (exn \<Rightarrow> 'a io) \<Rightarrow> 'a io" where
  "io_catch m h = (\<lambda>w. case m w of (Inl e, w') \<Rightarrow> h e w' | (Inr x, w') \<Rightarrow> (Inr x, w'))"

definition db_call :: "(nat \<Rightarrow> database \<Rightarrow> 'a \<times> database) \<Rightarrow> 'a io" where
  "db_call q = (\<lambda>w.
     if faults w (calls w) then (Inl DbError, w\<lparr>calls := Suc (calls w)\<rparr>)
     else (case q (clock w (calls w)) (db w) of
             (x, d) \<Rightarrow> (Inr x, w\<lparr>db := d, calls := Suc (calls w)\<rparr>)))"

text \<open>
  \<^verbatim>\<open>orderBy(desc(col))\<close>: rows by descending timestamp. The query does not fix the order of
  rows with equal timestamps; the model picks one, and no property below depends on it.
  \<^verbatim>\<open>const [row] = ...\<close> takes the first row of a result, and \<^verbatim>\<open>undefined\<close> (here \<open>None\<close>) when
  the result is empty.
\<close>

definition order_by_desc :: "('r \<Rightarrow> nat) \<Rightarrow> 'r list \<Rightarrow> 'r list" where
  "order_by_desc col rows = rev (sort_key col rows)"

definition first_row :: "'r list \<Rightarrow> 'r option" where
  "first_row rows = (case rows of [] \<Rightarrow> None | r # _ \<Rightarrow> Some r)"

section \<open>DatabaseStorage\<close>

subsection \<open>Users\<close>

definition getUsers :: "user list io" where
  "getUsers = db_call (\<lambda>now d. (order_by_desc user_joinedAt (users_tbl d), d))"

definition getUser :: "int \<Rightarrow> user option io" where
  "getUser i = db_call (\<lambda>now d. (first_row (filter (\<lambda>u. user_id u = i) (users_tbl d)), d))"

definition createUser :: "insert_user \<Rightarrow> user io" where
  "createUser u = db_call (\<lambda>now d.
     let newUser = \<lparr>user_id = users_seq d, user_name = new_user_name u,
                    user_email = new_user_email u, user_role = new_user_role u,
                    user_status = new_user_status u, user_joinedAt = now\<rparr>
     in (newUser, d\<lparr>users_tbl := users_tbl d @ [newUser], users_seq := users_seq d + 1\<rparr>))"

definition updateUserStatus :: "int \<Rightarrow> string \<Rightarrow> user option io" where
  "updateUserStatus i status = db_call (\<lambda>now d.
     let rows = map (\<lambda>u. if user_id u = i then u\<lparr>user_status := status\<rparr> else u) (users_tbl d)
     in (first_row (filter (\<lambda>u. user_id u = i) rows), d\<lparr>users_tbl := rows\<rparr>))"

definition deleteUser :: "int \<Rightarrow> unit io" where
  "deleteUser i = db_call (\<lambda>now d.
     ((), d\<lparr>users_tbl := filter (\<lambda>u. user_id u \<noteq> i) (users_tbl d)\<rparr>))"

subsection \<open>Places\<close>

definition getPlaces :: "place list io" where
  "getPlaces = db_call (\<lambda>now d. (order_by_desc place_createdAt (places_tbl d), d))"

definition getPlace :: "int \<Rightarrow> place option io" where
  "getPlace i = db_call (\<lambda>now d. (first_row (filter (\<lambda>p. place_id p = i) (places_tbl d)), d))"

definition createPlace :: "insert_place \<Rightarrow> place io" where
  "createPlace p = db_call (\<lambda>now d.
     let newPlace = \<lparr>place_id = places_seq d, place_name = new_place_name p,
                     place_description = new_place_description p,
                     place_location = new_place_location p,
                     place_category = new_place_category p,
                     place_imageUrl = new_place_imageUrl p,
                     place_rating = new_place_rating p, place_status = new_place_status p,
                     place_amenities = new_place_amenities p,
                     place_coordinates = new_place_coordinates p, place_createdAt = now\<rparr>
     in (newPlace, d\<lparr>places_tbl := places_tbl d @ [newPlace], places_seq := places_seq d + 1\<rparr>))"

definition deletePlace :: "int \<Rightarrow> unit io" where
  "deletePlace i = db_call (\<lambda>now d.
     ((), d\<lparr>places_tbl := filter (\<lambda>p. place_id p \<noteq> i) (places_tbl d)\<rparr>))"

subsection \<open>Playlists\<close>

definition getPlaylists :: "playlist list io" where
  "getPlaylists = db_call (\<lambda>now d. (order_by_desc playlist_createdAt (playlists_tbl d), d))"

definition createPlaylist :: "insert_playlist \<Rightarrow> playlist io" where
  "createPlaylist p = db_call (\<lambda>now d.
     let newPlaylist = \<lparr>playlist_id = playlists_seq d, playlist_name = new_playlist_name p,
                        playlist_description = new_playlist_description p,
                        playlist_creatorId = new_playlist_creatorId p,
                        playlist_creatorName = new_playlist_creatorName p,
                        playlist_status = new_playlist_status p,
                        playlist_placesCount = new_playlist_placesCount p,
                        playlist_isFeatured = new_playlist_isFeatured p,
                        playlist_visibility = new_playlist_visibility p,
                        playlist_createdAt = now\<rparr>
     in (newPlaylist,
         d\<lparr>playlists_tbl := playlists_tbl d @ [newPlaylist], playlists_seq := playlists_seq d + 1\<rparr>))"

definition updatePlaylistStatus :: "int \<Rightarrow> string \<Rightarrow> playlist option io" where
  "updatePlaylistStatus i status = db_call (\<lambda>now d.
     let rows = map (\<lambda>p. if playlist_id p = i then p\<lparr>playlist_status := status\<rparr> else p)
                    (playlists_tbl d)
     in (first_row (filter (\<lambda>p. playlist_id p = i) rows), d\<lparr>playlists_tbl := rows\<rparr>))"

subsection \<open>Trips\<close>

definition getTrips :: "trip list io" where
  "getTrips = db_call (\<lambda>now d. (trips_tbl d, d))"

definition createTrip :: "insert_trip \<Rightarrow> trip io" where
  "createTrip t = db_call (\<lambda>now d.
     let newTrip = \<lparr>trip_id = trips_seq d, trip_userId = new_trip_userId t,
                    trip_destination = new_trip_destination t, trip_status = new_trip_status t\<rparr>
     in (newTrip, d\<lparr>trips_tbl := trips_tbl d @ [newTrip], trips_seq := trips_seq d + 1\<rparr>))"

subsection \<open>Reviews\<close>

definition getReviews :: "review list io" where
  "getReviews = db_call (\<lambda>now d. (order_by_desc review_createdAt (reviews_tbl d), d))"

definition createReview :: "insert_review \<Rightarrow> review io" where
  "createReview r = db_call (\<lambda>now d.
     let newReview = \<lparr>review_id = reviews_seq d, review_userId = new_review_userId r,
                      review_userName = new_review_userName r,
                      review_placeId = new_review_placeId r,
                      review_placeName = new_review_placeName r,
                      review_content = new_review_content r,
                      review_rating = new_review_rating r,
                      review_status = new_review_status r, review_createdAt = now\<rparr>
     in (newReview,
         d\<lparr>reviews_tbl := reviews_tbl d @ [newReview], reviews_seq := reviews_seq d + 1\<rparr>))"

definition updateReviewStatus :: "int \<Rightarrow> string \<Rightarrow> review option io" where
  "updateReviewStatus i status = db_call (\<lambda>now d.
     let rows = map (\<lambda>r. if review_id r = i then r\<lparr>review_status := status\<rparr> else r)
                    (reviews_tbl d)
     in (first_row (filter (\<lambda>r. review_id r = i) rows), d\<lparr>reviews_tbl := rows\<rparr>))"

subsection \<open>Photos\<close>

definition getPhotos :: "photo list io" where
  "getPhotos = db_call (\<lambda>now d. (order_by_desc photo_createdAt (photos_tbl d), d))"

definition createPhoto :: "insert_photo \<Rightarrow> photo io" where
  "createPhoto p = db_call (\<lambda>now d.
     let newPhoto = \<lparr>photo_id = photos_seq d, photo_uploaderId = new_photo_uploaderId p,
                     photo_uploaderName = new_photo_uploaderName p, photo_url = new_photo_url p,
                     photo_caption = new_photo_caption p,
                     photo_relatedType = new_photo_relatedType p,
                     photo_relatedId = new_photo_relatedId p,
                     photo_status = new_photo_status p, photo_createdAt = now\<rparr>
     in (newPhoto, d\<lparr>photos_tbl := photos_tbl d @ [newPhoto], photos_seq := photos_seq d + 1\<rparr>))"

definition updatePhotoStatus :: "int \<Rightarrow> string \<Rightarrow> photo option io" where
  "updatePhotoStatus i status = db_call (\<lambda>now d.
     let rows = map (\<lambda>p. if photo_id p = i then p\<lparr>photo_status := status\<rparr> else p)
                    (photos_tbl d)
     in (first_row (filter (\<lambda>p. photo_id p = i) rows), d\<lparr>photos_tbl := rows\<rparr>))"

subsection \<open>Stats\<close>

definition getDashboardStats :: "StatsResponse io" where
  "getDashboardStats =
     io_bind getTrips (\<lambda>allTrips.
     io_bind getPlaylists (\<lambda>allPlaylists.
     io_bind getPlaces (\<lambda>allPlaces.
     io_bind getUsers (\<lambda>allUsers.
     io_bind getReviews (\<lambda>allReviews.
     io_return \<lparr>totalTrips = length allTrips,
                totalPlaylists = length allPlaylists,
                totalPlaces = length allPlaces,
                activeUsers = length (filter (\<lambda>u. user_status u = ''active'') allUsers),
                pendingReviews =
                  length (filter (\<lambda>r. review_status r = ''pending'') allReviews)\<rparr>)))))"

subsection \<open>Activity\<close>

text \<open>
  The counts of \<^verbatim>\<open>getActivityStats\<close> are computed on JavaScript Numbers, that is on binary64
  floating-point values. \<open>Number m e\<close> denotes the value \<open>m * 2 ^ e\<close>; it is a finite binary64
  value when the mantissa has at most 53 bits and the exponent is in range. The product of two
  Numbers is the exact product rounded to 53 significant bits (fewer below the smallest normal
  exponent), to nearest and with ties to the even mantissa. Products beyond the largest finite
  Number, which would be \<^verbatim>\<open>Infinity\<close>, do not arise here and are not modelled.
  \<^verbatim>\<open>Math.floor\<close> yields an integer, and adding 10 or 5 to an integer of this size is exact.
\<close>

datatype number = Number (mant: int) (expo: int)

definition number_value :: "number \<Rightarrow> real" where
  "number_value x = of_int (mant x) * 2 powi expo x"

definition is_number :: "number \<Rightarrow> bool" where
  "is_number x = (\<bar>mant x\<bar> < 2 ^ 53 \<and> - 1074 \<le> expo x \<and> expo x \<le> 971)"

definition round_half_even :: "int \<Rightarrow> nat \<Rightarrow> int" where
  "round_half_even m s =
     (let q = m div 2 ^ s; r = m mod 2 ^ s
      in if 2 * r < 2 ^ s then q
         else if 2 ^ s < 2 * r then q + 1
         else if even q then q else q + 1)"

definition number_mul :: "number \<Rightarrow> number \<Rightarrow> number" where
  "number_mul x y =
     (let m = mant x * mant y; e = expo x + expo y;
          s = nat (max (bitlen \<bar>m\<bar> - 53) (- 1074 - e))
      in Number (sgn m * round_half_even \<bar>m\<bar> s) (e + int s))"

definition Math_floor :: "number \<Rightarrow> int" where
  "Math_floor x =
     (if 0 \<le> expo x then mant x * 2 ^ nat (expo x) else mant x div 2 ^ nat (- expo x))"

text \<open>
  \<^verbatim>\<open>Math.random()\<close> is outside the program: \<open>random k\<close> is the outcome of the \<open>k\<close>-th draw made
  by one run of \<^verbatim>\<open>getActivityStats\<close>, a Number in \<open>[0, 1)\<close>. The callback of \<^verbatim>\<open>dates.map\<close>
  draws twice per date, first for the trips and then for the playlists.
\<close>

record activity =
  date :: string
  trips :: int
  playlists :: int

fun activity_map :: "(nat \<Rightarrow> number) \<Rightarrow> nat \<Rightarrow> string list \<Rightarrow> activity list" where
  "activity_map random k [] = []"
| "activity_map random k (d # dates) =
     \<lparr>date = d,
      trips = Math_floor (number_mul (random k) (Number 50 0)) + 10,
      playlists = Math_floor (number_mul (random (Suc k)) (Number 20 0)) + 5\<rparr> #
     activity_map random (Suc (Suc k)) dates"

definition getActivityStats :: "(nat \<Rightarrow> number) \<Rightarrow> activity list" where
  "getActivityStats random =
     activity_map random 0
       [''2024-01'', ''2024-02'', ''2024-03'', ''2024-04'', ''2024-05'', ''2024-06'']"

section \<open>Request handlers\<close>

text \<open>
  A handler either sends a response or throws; a thrown exception leaves the handler and
  reaches the generic error path of the framework. \<^verbatim>\<open>res.json(x)\<close> sends status 200 unless
  \<^verbatim>\<open>res.status(n)\<close> was called before. The path parameter is taken after \<^verbatim>\<open>Number(...)\<close> has
  made an integer of it, and the body of a status update is taken to carry a string status.
\<close>

datatype 'a body = Json 'a | Message string | NoBody

record 'a response =
  res_status :: nat
  res_body :: "'a body"

datatype json =
  JNull | JBool bool | JNum rat | JStr string | JArr "json list" | JObj "(string \<times> json) list"

text \<open>
  Reading a property: \<^verbatim>\<open>undefined\<close> and \<^verbatim>\<open>null\<close> have none and the read throws a TypeError;
  an object (which holds each key once) yields the value stored under the key, anything else
  yields \<^verbatim>\<open>undefined\<close> for the two keys the handler reads. An absent request body is \<open>None\<close>.
\<close>

fun get_prop :: "json option \<Rightarrow> string \<Rightarrow> exn + json option" where
  "get_prop None k = Inl TypeError"
| "get_prop (Some JNull) k = Inl TypeError"
| "get_prop (Some (JObj kvs)) k = Inr (map_of kvs k)"
| "get_prop (Some v) k = Inr None"

fun set_prop :: "json option \<Rightarrow> string \<Rightarrow> json \<Rightarrow> json option" where
  "set_prop (Some (JObj kvs)) k v = Some (JObj (AList.update k v kvs))"
| "set_prop b k v = b"

fun truthy :: "json option \<Rightarrow> bool" where
  "truthy None = False"
| "truthy (Some JNull) = False"
| "truthy (Some (JBool b)) = b"
| "truthy (Some (JNum n)) = (n \<noteq> 0)"
| "truthy (Some (JStr s)) = (s \<noteq> [])"
| "truthy (Some v) = True"

fun typeof_object :: "json option \<Rightarrow> bool" where
  "typeof_object (Some JNull) = True"
| "typeof_object (Some (JArr vs)) = True"
| "typeof_object (Some (JObj kvs)) = True"
| "typeof_object v = False"

fun isArray :: "json option \<Rightarrow> bool" where
  "isArray (Some (JArr vs)) = True"
| "isArray v = False"

definition io_of :: "exn + 'a \<Rightarrow> 'a io" where
  "io_of r = (case r of Inl e \<Rightarrow> io_throw e | Inr x \<Rightarrow> io_return x)"

text \<open>
  The validators \<^verbatim>\<open>api.places.create.input\<close> and \<^verbatim>\<open>api.playlists.create.input\<close> belong to
  \<^verbatim>\<open>@shared/routes\<close> and are parameters here: \<open>parse b\<close> is the validated record, or the list of
  issues of the \<^verbatim>\<open>ZodError\<close> it throws. \<^verbatim>\<open>JSON.stringify\<close> is a parameter as well.
\<close>

definition zod_parse :: "(json option \<Rightarrow> zod_issue list + 'a) \<Rightarrow> json option \<Rightarrow> 'a io" where
  "zod_parse parse b = (case parse b of Inl issues \<Rightarrow> io_throw (ZodError issues)
                                       | Inr input \<Rightarrow> io_return input)"

definition places_get :: "int \<Rightarrow> place response io" where
  "places_get i =
     io_bind (getPlace i) (\<lambda>place.
       case place of
         None \<Rightarrow> io_return \<lparr>res_status = 404, res_body = Message ''Place not found''\<rparr>
       | Some p \<Rightarrow> io_return \<lparr>res_status = 200, res_body = Json p\<rparr>)"

definition places_create ::
  "(json \<Rightarrow> string) \<Rightarrow> (json option \<Rightarrow> zod_issue list + insert_place) \<Rightarrow> json option \<Rightarrow>
     place response io" where
  "places_create stringify parse req_body =
     io_catch
       (io_bind (io_of (get_prop req_body ''coordinates'')) (\<lambda>coordinates.
        let body1 = (case coordinates of
                       None \<Rightarrow> req_body
                     | Some c \<Rightarrow>
                         if truthy coordinates \<and> typeof_object coordinates
                         then set_prop req_body ''coordinates'' (JStr (stringify c))
                         else req_body) in
        io_bind (io_of (get_prop body1 ''amenities'')) (\<lambda>amenities.
        let body2 = (case amenities of
                       None \<Rightarrow> body1
                     | Some a \<Rightarrow>
                         if truthy amenities \<and> isArray amenities
                         then set_prop body1 ''amenities'' (JStr (stringify a))
                         else body1) in
        io_bind (zod_parse parse body2) (\<lambda>input.
        io_bind (createPlace input) (\<lambda>place.
        io_return \<lparr>res_status = 201, res_body = Json place\<rparr>)))))
       (\<lambda>err. case err of
          ZodError errors \<Rightarrow>
            (case errors of
               [] \<Rightarrow> io_throw TypeError
             | e # _ \<Rightarrow> io_return \<lparr>res_status = 400, res_body = Message (issue_message e)\<rparr>)
        | _ \<Rightarrow> io_throw err)"

definition places_delete :: "int \<Rightarrow> unit response io" where
  "places_delete i =
     io_bind (deletePlace i) (\<lambda>_. io_return \<lparr>res_status = 204, res_body = NoBody\<rparr>)"

definition playlists_create ::
  "(json option \<Rightarrow> zod_issue list + insert_playlist) \<Rightarrow> json option \<Rightarrow> playlist response io" where
  "playlists_create parse req_body =
     io_bind (zod_parse parse req_body) (\<lambda>input.
     io_bind (createPlaylist input) (\<lambda>playlist.
     io_return \<lparr>res_status = 201, res_body = Json playlist\<rparr>))"

definition playlists_updateStatus :: "int \<Rightarrow> string \<Rightarrow> playlist option response io" where
  "playlists_updateStatus i status =
     io_bind (updatePlaylistStatus i status) (\<lambda>updated.
     io_return \<lparr>res_status = 200, res_body = Json updated\<rparr>)"

definition users_updateStatus :: "int \<Rightarrow> string \<Rightarrow> user option response io" where
  "users_updateStatus i status =
     io_bind (updateUserStatus i status) (\<lambda>updated.
     io_return \<lparr>res_status = 200, res_body = Json updated\<rparr>)"

definition users_delete :: "int \<Rightarrow> unit response io" where
  "users_delete i =
     io_bind (deleteUser i) (\<lambda>_. io_return \<lparr>res_status = 204, res_body = NoBody\<rparr>)"

definition moderation_reviews_list :: "review list response io" where
  "moderation_reviews_list =
     io_bind getReviews (\<lambda>reviews.
     let pending = filter (\<lambda>r. review_status r = ''pending'') reviews in
     io_return \<lparr>res_status = 200, res_body = Json pending\<rparr>)"

definition moderation_reviews_action :: "int \<Rightarrow> string \<Rightarrow> review option response io" where
  "moderation_reviews_action i status =
     io_bind (updateReviewStatus i status) (\<lambda>updated.
     io_return \<lparr>res_status = 200, res_body = Json updated\<rparr>)"

definition moderation_photos_list :: "photo list response io" where
  "moderation_photos_list =
     io_bind getPhotos (\<lambda>photos.
     let pending = filter (\<lambda>p. photo_status p = ''pending'') photos in
     io_return \<lparr>res_status = 200, res_body = Json pending\<rparr>)"

definition moderation_photos_action :: "int \<Rightarrow> string \<Rightarrow> photo option response io" where
  "moderation_photos_action i status =
     io_bind (updatePhotoStatus i status) (\<lambda>updated.
     io_return \<lparr>res_status = 200, res_body = Json updated\<rparr>)"

section \<open>Seeding\<close>

text \<open>
  \<^verbatim>\<open>seedDatabase\<close> runs once at startup, before the routes are registered. Its two log lines
  and the warning of the catch block leave no trace in the world.
\<close>

definition seedDatabase :: "(json \<Rightarrow> string) \<Rightarrow> unit io" where
  "seedDatabase stringify =
     io_catch
       (io_bind getUsers (\<lambda>users.
        if length users = 0 then
          io_bind (createUser \<lparr>new_user_name = ''Sarah Miller'',
                     new_user_email = ''sarah@example.com'', new_user_role = ''user'',
                     new_user_status = ''active''\<rparr>) (\<lambda>user1.
          io_bind (createUser \<lparr>new_user_name = ''John Doe'',
                     new_user_email = ''john@example.com'', new_user_role = ''user'',
                     new_user_status = ''active''\<rparr>) (\<lambda>user2.
          io_bind (createUser \<lparr>new_user_name = ''TravelSL'',
                     new_user_email = ''travel@example.com'', new_user_role = ''admin'',
                     new_user_status = ''active''\<rparr>) (\<lambda>user3.
          io_bind (createUser \<lparr>new_user_name = ''Mike Smith'',
                     new_user_email = ''mike@example.com'', new_user_role = ''user'',
                     new_user_status = ''disabled''\<rparr>) (\<lambda>user4.
          io_bind (createPlace \<lparr>new_place_name = ''Secret Beach Cove'',
                     new_place_description =
                       ''A hidden gem with pristine white sand and turquoise waters.'',
                     new_place_location = ''Mirissa, South Coast'',
                     new_place_category = ''Beach'',
                     new_place_imageUrl =
                       ''https://images.unsplash.com/photo-1507525428034-b723cf961d3e'',
                     new_place_rating = ''4.8'',
                     new_place_status = ''active'',
                     new_place_amenities =
                       stringify (JArr [JStr ''Parking'', JStr ''WiFi'', JStr ''Restrooms'']),
                     new_place_coordinates =
                       stringify (JObj [(''lat'', JNum 5.9485), (''lng'', JNum 80.5353)])\<rparr>)
            (\<lambda>place1.
          io_bind (createPlace \<lparr>new_place_name = ''Hidden Waterfall Trail'',
                     new_place_description =
                       ''A scenic hike leading to a breathtaking waterfall.'',
                     new_place_location = ''Ella, Hill Country'',
                     new_place_category = ''Nature'',
                     new_place_imageUrl =
                       ''https://images.unsplash.com/photo-1432405972618-c60b0225b8f9'',
                     new_place_rating = ''4.9'',
                     new_place_status = ''active'',
                     new_place_amenities =
                       stringify (JArr [JStr ''Guide Available'', JStr ''Hiking'']),
                     new_place_coordinates =
                       stringify (JObj [(''lat'', JNum 6.8667), (''lng'', JNum 81.0466)])\<rparr>)
            (\<lambda>place2.
          io_bind (createPlace \<lparr>new_place_name = ''Ancient Temple Ruins'',
                     new_place_description =
                       ''Historical ruins dating back to the 5th century.'',
                     new_place_location = ''Anuradhapura'',
                     new_place_category = ''Cultural'',
                     new_place_imageUrl =
                       ''https://images.unsplash.com/photo-1588596623667-27e163b96c9c'',
                     new_place_rating = ''4.7'',
                     new_place_status = ''active'',
                     new_place_amenities = stringify (JArr [JStr ''Guide Available'']),
                     new_place_coordinates =
                       stringify (JObj [(''lat'', JNum 8.3114), (''lng'', JNum 80.4037)])\<rparr>)
            (\<lambda>place3.
          io_bind (createPlaylist \<lparr>new_playlist_name = ''Southern Coast Adventure'',
                     new_playlist_description = ''Explore the best beaches and coastal towns.'',
                     new_playlist_creatorId = user_id user3,
                     new_playlist_creatorName = user_name user3,
                     new_playlist_status = ''approved'',
                     new_playlist_placesCount = 8,
                     new_playlist_isFeatured = True,
                     new_playlist_visibility = ''public''\<rparr>) (\<lambda>_.
          io_bind (createPlaylist \<lparr>new_playlist_name = ''Hill Country Hikes'',
                     new_playlist_description = ''Best hiking trails in Ella and Nuwara Eliya.'',
                     new_playlist_creatorId = user_id user2,
                     new_playlist_creatorName = user_name user2,
                     new_playlist_status = ''pending'',
                     new_playlist_placesCount = 6,
                     new_playlist_isFeatured = False,
                     new_playlist_visibility = ''public''\<rparr>) (\<lambda>_.
          io_bind (createTrip \<lparr>new_trip_userId = user_id user1,
                     new_trip_destination = ''Sri Lanka'',
                     new_trip_status = ''completed''\<rparr>) (\<lambda>_.
          io_bind (createTrip \<lparr>new_trip_userId = user_id user2,
                     new_trip_destination = ''Maldives'',
                     new_trip_status = ''planned''\<rparr>) (\<lambda>_.
          io_bind (createTrip \<lparr>new_trip_userId = user_id user1,
                     new_trip_destination = ''Japan'',
                     new_trip_status = ''completed''\<rparr>) (\<lambda>_.
          io_bind (createReview \<lparr>new_review_userId = user_id user1,
                     new_review_userName = user_name user1,
                     new_review_placeId = place_id place1,
                     new_review_placeName = place_name place1,
                     new_review_content = ''Absolutely stunning place! Must visit.'',
                     new_review_rating = ''5'',
                     new_review_status = ''pending''\<rparr>) (\<lambda>_.
          io_bind (createReview \<lparr>new_review_userId = user_id user2,
                     new_review_userName = user_name user2,
                     new_review_placeId = place_id place2,
                     new_review_placeName = place_name place2,
                     new_review_content = ''A bit hard to find, but worth the hike.'',
                     new_review_rating = ''4'',
                     new_review_status = ''approved''\<rparr>) (\<lambda>_.
          io_bind (createPhoto \<lparr>new_photo_uploaderId = user_id user1,
                     new_photo_uploaderName = user_name user1,
                     new_photo_url =
                       ''https://images.unsplash.com/photo-1506929562872-bb421503ef21'',
                     new_photo_caption = ''Sunset at the beach'',
                     new_photo_relatedType = ''place'',
                     new_photo_relatedId = place_id place1,
                     new_photo_status = ''pending''\<rparr>) (\<lambda>_.
          io_return ())))))))))))))))
        else io_return ()))
       (\<lambda>err. io_return ())"

section \<open>Reachable worlds\<close>

text \<open>
  A freshly migrated database has six empty tables whose sequences start at 1. \<open>online d\<close> is
  a world over the database \<open>d\<close> in which no query ever fails. The invariant \<open>wf_database\<close> is
  what the primary keys and the identity sequences of the schema maintain: within a table no
  two rows share an identity, and the sequence is ahead of every identity handed out.
\<close>

definition empty_database :: database where
  "empty_database =
     \<lparr>users_tbl = [], places_tbl = [], playlists_tbl = [], trips_tbl = [], reviews_tbl = [],
      photos_tbl = [], users_seq = 1, places_seq = 1, playlists_seq = 1, trips_seq = 1,
      reviews_seq = 1, photos_seq = 1\<rparr>"

definition online :: "database \<Rightarrow> world" where
  "online d = \<lparr>db = d, calls = 0, faults = (\<lambda>k. False), clock = (\<lambda>k. k)\<rparr>"

definition wf_table :: "('r \<Rightarrow> int) \<Rightarrow> 'r list \<Rightarrow> int \<Rightarrow> bool" where
  "wf_table ident rows seq = (distinct (map ident rows) \<and> list_all (\<lambda>r. ident r < seq) rows)"

definition wf_database :: "database \<Rightarrow> bool" where
  "wf_database d =
     (wf_table user_id (users_tbl d) (users_seq d) \<and>
      wf_table place_id (places_tbl d) (places_seq d) \<and>
      wf_table playlist_id (playlists_tbl d) (playlists_seq d) \<and>
      wf_table trip_id (trips_tbl d) (trips_seq d) \<and>
      wf_table review_id (reviews_tbl d) (reviews_seq d) \<and>
      wf_table photo_id (photos_tbl d) (photos_seq d))"

text \<open>Sequences of create and update-status calls on the user table.\<close>

datatype user_op = Create insert_user | UpdateStatus int string

fun apply_user_op :: "user_op \<Rightarrow> world \<Rightarrow> world" where
  "apply_user_op (Create u) w = snd (createUser u w)"
| "apply_user_op (UpdateStatus i status) w = snd (updateUserStatus i status w)"

definition run_user_ops :: "user_op list \<Rightarrow> world \<Rightarrow> world" where
  "run_user_ops ops w = fold apply_user_op ops w"

section \<open>Properties of the storage layer\<close>

lemma db_call_ok:
  "\<not> faults w (calls w) \<Longrightarrow>
     db_call q w = (Inr (fst (q (clock w (calls w)) (db w))),
                    w\<lparr>db := snd (q (clock w (calls w)) (db w)), calls := Suc (calls w)\<rparr>)"
  by (simp add: db_call_def split: prod.splits)

lemma length_order_by_desc: "length (order_by_desc col rows) = length rows"
  by (simp add: order_by_desc_def)

lemma length_filter_order_by_desc:
  "length (filter P (order_by_desc col rows)) = length (filter P rows)"
  by (simp add: order_by_desc_def rev_filter [symmetric] filter_sort)

subsection \<open>Dashboard counts\<close>

text \<open>
  C1. In every world \<open>w\<close>, and so in every world reached by a sequence of user creations and
  status updates, a run of \<^verbatim>\<open>getDashboardStats\<close> whose five queries succeed returns the
  number of trip rows, of playlist rows, of place rows, of user rows with status "active" and
  of review rows with status "pending", and changes no table.
\<close>

theorem dashboard_counts:
  assumes reach: "w = run_user_ops ops w0"
    and up: "\<forall>k<5. \<not> faults w (calls w + k)"
  shows "getDashboardStats w =
     (Inr \<lparr>totalTrips = length (trips_tbl (db w)),
           totalPlaylists = length (playlists_tbl (db w)),
           totalPlaces = length (places_tbl (db w)),
           activeUsers = length (filter (\<lambda>u. user_status u = ''active'') (users_tbl (db w))),
           pendingReviews =
             length (filter (\<lambda>r. review_status r = ''pending'') (reviews_tbl (db w)))\<rparr>,
      w\<lparr>calls := calls w + 5\<rparr>)"
proof -
  from up have f: "\<not> faults w (calls w)" "\<not> faults w (Suc (calls w))"
    "\<not> faults w (Suc (Suc (calls w)))" "\<not> faults w (Suc (Suc (Suc (calls w))))"
    "\<not> faults w (Suc (Suc (Suc (Suc (calls w)))))"
    using up[rule_format, of 0] up[rule_format, of 1] up[rule_format, of 2]
      up[rule_format, of 3] up[rule_format, of 4]
    by (simp_all add: numeral_eq_Suc)
  show ?thesis
    unfolding getDashboardStats_def getTrips_def getPlaylists_def getPlaces_def getUsers_def
      getReviews_def
    by (simp add: io_bind_def io_return_def db_call_ok f length_order_by_desc
        length_filter_order_by_desc)
qed

theorem dashboard_counts_witness:
  "getDashboardStats
     (run_user_ops
        [Create \<lparr>new_user_name = ''A'', new_user_email = ''a@example.com'',
                 new_user_role = ''user'', new_user_status = ''active''\<rparr>,
         Create \<lparr>new_user_name = ''B'', new_user_email = ''b@example.com'',
                 new_user_role = ''user'', new_user_status = ''disabled''\<rparr>]
        (online empty_database)) =
   (Inr \<lparr>totalTrips = 0, totalPlaylists = 0, totalPlaces = 0, activeUsers = 1,
         pendingReviews = 0\<rparr>,
    (run_user_ops
        [Create \<lparr>new_user_name = ''A'', new_user_email = ''a@example.com'',
                 new_user_role = ''user'', new_user_status = ''active''\<rparr>,
         Create \<lparr>new_user_name = ''B'', new_user_email = ''b@example.com'',
                 new_user_role = ''user'', new_user_status = ''disabled''\<rparr>]
        (online empty_database))\<lparr>calls := 7\<rparr>)"
  using dashboard_counts
    [of "run_user_ops
        [Create \<lparr>new_user_name = ''A'', new_user_email = ''a@example.com'',
                 new_user_role = ''user'', new_user_status = ''active''\<rparr>,
         Create \<lparr>new_user_name = ''B'', new_user_email = ''b@example.com'',
                 new_user_role = ''user'', new_user_status = ''disabled''\<rparr>]
        (online empty_database)"
        "[Create \<lparr>new_user_name = ''A'', new_user_email = ''a@example.com'',
                 new_user_role = ''user'', new_user_status = ''active''\<rparr>,
         Create \<lparr>new_user_name = ''B'', new_user_email = ''b@example.com'',
                 new_user_role = ''user'', new_user_status = ''disabled''\<rparr>]"
        "online empty_database"]
  by (simp add: run_user_ops_def createUser_def db_call_def online_def empty_database_def Let_def)

subsection \<open>Lookups, updates and deletions of absent identities\<close>

lemma first_row_filter_None: "k \<notin> f ` set rows \<Longrightarrow> first_row (filter (\<lambda>r. f r = k) rows) = None"
proof -
  assume "k \<notin> f ` set rows"
  then have "filter (\<lambda>r. f r = k) rows = []"
    by (auto simp: filter_empty_conv)
  then show ?thesis by (simp add: first_row_def)
qed

lemma map_upd_absent: "k \<notin> f ` set rows \<Longrightarrow> map (\<lambda>r. if f r = k then g r else r) rows = rows"
  by (induction rows) auto

lemma filter_absent: "k \<notin> f ` set rows \<Longrightarrow> filter (\<lambda>r. f r \<noteq> k) rows = rows"
  by (induction rows) auto

lemma set_order_by_desc: "set (order_by_desc col rows) = set rows"
  by (simp add: order_by_desc_def)

subsection \<open>Moderation listings\<close>

lemma mset_filter_order_by_desc:
  "mset (filter P (order_by_desc col rows)) = filter_mset P (mset rows)"
  by (simp add: order_by_desc_def)

lemma moderation_reviews_list_ok:
  assumes "\<not> faults w (calls w)"
  shows "moderation_reviews_list w =
     (Inr \<lparr>res_status = 200,
           res_body = Json (filter (\<lambda>r. review_status r = ''pending'')
                              (order_by_desc review_createdAt (reviews_tbl (db w))))\<rparr>,
      w\<lparr>calls := Suc (calls w)\<rparr>)"
  using assms
  by (simp add: moderation_reviews_list_def getReviews_def io_bind_def io_return_def db_call_ok)

lemma moderation_photos_list_ok:
  assumes "\<not> faults w (calls w)"
  shows "moderation_photos_list w =
     (Inr \<lparr>res_status = 200,
           res_body = Json (filter (\<lambda>p. photo_status p = ''pending'')
                              (order_by_desc photo_createdAt (photos_tbl (db w))))\<rparr>,
      w\<lparr>calls := Suc (calls w)\<rparr>)"
  using assms
  by (simp add: moderation_photos_list_def getPhotos_def io_bind_def io_return_def db_call_ok)

text \<open>
  C2. When the query succeeds, the moderation listing of reviews responds with rows taken
  from the full listing of \<^verbatim>\<open>getReviews\<close>; the rows it returns are exactly the stored rows
  whose status is "pending", each as often as it is stored; no table changes. The same holds
  for the moderation listing of photos.
\<close>

theorem moderation_lists_pending:
  assumes up: "\<not> faults w (calls w)"
  shows "(\<exists>rows listing w'.
            moderation_reviews_list w = (Inr \<lparr>res_status = 200, res_body = Json rows\<rparr>, w') \<and>
            getReviews w = (Inr listing, w') \<and> db w' = db w \<and>
            set rows \<subseteq> set listing \<and>
            (\<forall>r \<in> set rows. review_status r = ''pending'') \<and>
            (\<forall>r \<in> set (reviews_tbl (db w)). review_status r = ''pending'' \<longrightarrow> r \<in> set rows) \<and>
            mset rows =
              filter_mset (\<lambda>r. review_status r = ''pending'') (mset (reviews_tbl (db w)))) \<and>
         (\<exists>rows listing w'.
            moderation_photos_list w = (Inr \<lparr>res_status = 200, res_body = Json rows\<rparr>, w') \<and>
            getPhotos w = (Inr listing, w') \<and> db w' = db w \<and>
            set rows \<subseteq> set listing \<and>
            (\<forall>p \<in> set rows. photo_status p = ''pending'') \<and>
            (\<forall>p \<in> set (photos_tbl (db w)). photo_status p = ''pending'' \<longrightarrow> p \<in> set rows) \<and>
            mset rows =
              filter_mset (\<lambda>p. photo_status p = ''pending'') (mset (photos_tbl (db w))))"
proof (rule conjI)
  let ?listing = "order_by_desc review_createdAt (reviews_tbl (db w))"
  let ?rows = "filter (\<lambda>r. review_status r = ''pending'') ?listing"
  show "\<exists>rows listing w'.
          moderation_reviews_list w = (Inr \<lparr>res_status = 200, res_body = Json rows\<rparr>, w') \<and>
          getReviews w = (Inr listing, w') \<and> db w' = db w \<and>
          set rows \<subseteq> set listing \<and>
          (\<forall>r \<in> set rows. review_status r = ''pending'') \<and>
          (\<forall>r \<in> set (reviews_tbl (db w)). review_status r = ''pending'' \<longrightarrow> r \<in> set rows) \<and>
          mset rows =
            filter_mset (\<lambda>r. review_status r = ''pending'') (mset (reviews_tbl (db w)))"
  proof (intro exI conjI)
    show "moderation_reviews_list w =
            (Inr \<lparr>res_status = 200, res_body = Json ?rows\<rparr>, w\<lparr>calls := Suc (calls w)\<rparr>)"
      by (rule moderation_reviews_list_ok [OF up])
    show "getReviews w = (Inr ?listing, w\<lparr>calls := Suc (calls w)\<rparr>)"
      using up by (simp add: getReviews_def db_call_ok)
    show "db (w\<lparr>calls := Suc (calls w)\<rparr>) = db w"
      by simp
    show "set ?rows \<subseteq> set ?listing"
      by (rule filter_is_subset)
    show "\<forall>r \<in> set ?rows. review_status r = ''pending''"
      by simp
    show "\<forall>r \<in> set (reviews_tbl (db w)). review_status r = ''pending'' \<longrightarrow> r \<in> set ?rows"
      by (simp add: set_order_by_desc)
    show "mset ?rows = filter_mset (\<lambda>r. review_status r = ''pending'') (mset (reviews_tbl (db w)))"
      by (rule mset_filter_order_by_desc)
  qed
next
  let ?listing = "order_by_desc photo_createdAt (photos_tbl (db w))"
  let ?rows = "filter (\<lambda>p. photo_status p = ''pending'') ?listing"
  show "\<exists>rows listing w'.
          moderation_photos_list w = (Inr \<lparr>res_status = 200, res_body = Json rows\<rparr>, w') \<and>
          getPhotos w = (Inr listing, w') \<and> db w' = db w \<and>
          set rows \<subseteq> set listing \<and>
          (\<forall>p \<in> set rows. photo_status p = ''pending'') \<and>
          (\<forall>p \<in> set (photos_tbl (db w)). photo_status p = ''pending'' \<longrightarrow> p \<in> set rows) \<and>
          mset rows =
            filter_mset (\<lambda>p. photo_status p = ''pending'') (mset (photos_tbl (db w)))"
  proof (intro exI conjI)
    show "moderation_photos_list w =
            (Inr \<lparr>res_status = 200, res_body = Json ?rows\<rparr>, w\<lparr>calls := Suc (calls w)\<rparr>)"
      by (rule moderation_photos_list_ok [OF up])
    show "getPhotos w = (Inr ?listing, w\<lparr>calls := Suc (calls w)\<rparr>)"
      using up by (simp add: getPhotos_def db_call_ok)
    show "db (w\<lparr>calls := Suc (calls w)\<rparr>) = db w"
      by simp
    show "set ?rows \<subseteq> set ?listing"
      by (rule filter_is_subset)
    show "\<forall>p \<in> set ?rows. photo_status p = ''pending''"
      by simp
    show "\<forall>p \<in> set (photos_tbl (db w)). photo_status p = ''pending'' \<longrightarrow> p \<in> set ?rows"
      by (simp add: set_order_by_desc)
    show "mset ?rows = filter_mset (\<lambda>p. photo_status p = ''pending'') (mset (photos_tbl (db w)))"
      by (rule mset_filter_order_by_desc)
  qed
qed

theorem moderation_lists_pending_witness:
  "\<exists>rows. fst (moderation_reviews_list
      (snd (createReview \<lparr>new_review_userId = 1, new_review_userName = ''A'',
              new_review_placeId = 1, new_review_placeName = ''P'',
              new_review_content = ''fine'', new_review_rating = ''5'',
              new_review_status = ''pending''\<rparr> (online empty_database)))) =
      Inr \<lparr>res_status = 200, res_body = Json rows\<rparr> \<and>
    mset rows = {#\<lparr>review_id = 1, review_userId = 1, review_userName = ''A'',
              review_placeId = 1, review_placeName = ''P'',
              review_content = ''fine'', review_rating = ''5'',
              review_status = ''pending'', review_createdAt = 0\<rparr>#}"
  using moderation_lists_pending
    [of "snd (createReview \<lparr>new_review_userId = 1, new_review_userName = ''A'',
              new_review_placeId = 1, new_review_placeName = ''P'',
              new_review_content = ''fine'', new_review_rating = ''5'',
              new_review_status = ''pending''\<rparr> (online empty_database))"]
  by (auto simp add: createReview_def db_call_def online_def empty_database_def Let_def)

subsection \<open>Reading by identity\<close>

text \<open>
  C4. When the query succeeds and no user row has identity \<open>i\<close>, \<^verbatim>\<open>getUser\<close> returns
  \<^verbatim>\<open>undefined\<close>: no record and no exception. Likewise for \<^verbatim>\<open>getPlace\<close>, and the route that
  reads a place then responds 404 with the message "Place not found".
\<close>

theorem get_by_id_not_found:
  assumes up: "\<not> faults w (calls w)"
  shows "(i \<notin> user_id ` set (users_tbl (db w)) \<longrightarrow>
            getUser i w = (Inr None, w\<lparr>calls := Suc (calls w)\<rparr>)) \<and>
         (i \<notin> place_id ` set (places_tbl (db w)) \<longrightarrow>
            getPlace i w = (Inr None, w\<lparr>calls := Suc (calls w)\<rparr>) \<and>
            places_get i w =
              (Inr \<lparr>res_status = 404, res_body = Message ''Place not found''\<rparr>,
               w\<lparr>calls := Suc (calls w)\<rparr>))"
  using up
  by (simp add: getUser_def getPlace_def places_get_def io_bind_def io_return_def db_call_ok
      first_row_filter_None)

theorem get_by_id_not_found_witness:
  "getUser 7 (online empty_database) = (Inr None, (online empty_database)\<lparr>calls := 1\<rparr>) \<and>
   places_get 7 (online empty_database) =
     (Inr \<lparr>res_status = 404, res_body = Message ''Place not found''\<rparr>,
      (online empty_database)\<lparr>calls := 1\<rparr>)"
  using get_by_id_not_found [of "online empty_database" 7]
  by (simp add: online_def empty_database_def)

subsection \<open>Updating the status of an absent identity\<close>

text \<open>
  C10. When the query succeeds and no row of the table has identity \<open>i\<close>, each of the four
  status updates returns \<^verbatim>\<open>undefined\<close> and leaves the database as it was: it neither throws
  nor reports a missing row. The PATCH handler on top of it responds with status 200 and that
  absent value as its body, never with 404.
\<close>

theorem update_status_absent:
  assumes up: "\<not> faults w (calls w)"
  shows "(i \<notin> user_id ` set (users_tbl (db w)) \<longrightarrow>
            updateUserStatus i status w = (Inr None, w\<lparr>calls := Suc (calls w)\<rparr>) \<and>
            users_updateStatus i status w =
              (Inr \<lparr>res_status = 200, res_body = Json None\<rparr>, w\<lparr>calls := Suc (calls w)\<rparr>)) \<and>
         (i \<notin> playlist_id ` set (playlists_tbl (db w)) \<longrightarrow>
            updatePlaylistStatus i status w = (Inr None, w\<lparr>calls := Suc (calls w)\<rparr>) \<and>
            playlists_updateStatus i status w =
              (Inr \<lparr>res_status = 200, res_body = Json None\<rparr>, w\<lparr>calls := Suc (calls w)\<rparr>)) \<and>
         (i \<notin> review_id ` set (reviews_tbl (db w)) \<longrightarrow>
            updateReviewStatus i status w = (Inr None, w\<lparr>calls := Suc (calls w)\<rparr>) \<and>
            moderation_reviews_action i status w =
              (Inr \<lparr>res_status = 200, res_body = Json None\<rparr>, w\<lparr>calls := Suc (calls w)\<rparr>)) \<and>
         (i \<notin> photo_id ` set (photos_tbl (db w)) \<longrightarrow>
            updatePhotoStatus i status w = (Inr None, w\<lparr>calls := Suc (calls w)\<rparr>) \<and>
            moderation_photos_action i status w =
              (Inr \<lparr>res_status = 200, res_body = Json None\<rparr>, w\<lparr>calls := Suc (calls w)\<rparr>))"
proof -
  have users: "updateUserStatus i status w = (Inr None, w\<lparr>calls := Suc (calls w)\<rparr>)"
    if "i \<notin> user_id ` set (users_tbl (db w))"
    using up that
    by (simp add: updateUserStatus_def db_call_ok Let_def map_upd_absent first_row_filter_None)
  have playlists: "updatePlaylistStatus i status w = (Inr None, w\<lparr>calls := Suc (calls w)\<rparr>)"
    if "i \<notin> playlist_id ` set (playlists_tbl (db w))"
    using up that
    by (simp add: updatePlaylistStatus_def db_call_ok Let_def map_upd_absent first_row_filter_None)
  have reviews: "updateReviewStatus i status w = (Inr None, w\<lparr>calls := Suc (calls w)\<rparr>)"
    if "i \<notin> review_id ` set (reviews_tbl (db w))"
    using up that
    by (simp add: updateReviewStatus_def db_call_ok Let_def map_upd_absent first_row_filter_None)
  have photos: "updatePhotoStatus i status w = (Inr None, w\<lparr>calls := Suc (calls w)\<rparr>)"
    if "i \<notin> photo_id ` set (photos_tbl (db w))"
    using up that
    by (simp add: updatePhotoStatus_def db_call_ok Let_def map_upd_absent first_row_filter_None)
  show ?thesis
    using users playlists reviews photos
    by (simp add: users_updateStatus_def playlists_updateStatus_def moderation_reviews_action_def
        moderation_photos_action_def io_bind_def io_return_def)
qed

theorem update_status_absent_witness:
  "updatePlaylistStatus 42 ''approved'' (online empty_database) =
     (Inr None, (online empty_database)\<lparr>calls := 1\<rparr>) \<and>
   playlists_updateStatus 42 ''approved'' (online empty_database) =
     (Inr \<lparr>res_status = 200, res_body = Json None\<rparr>, (online empty_database)\<lparr>calls := 1\<rparr>) \<and>
   users_updateStatus 42 ''disabled'' (online empty_database) =
     (Inr \<lparr>res_status = 200, res_body = Json None\<rparr>, (online empty_database)\<lparr>calls := 1\<rparr>)"
  using update_status_absent [of "online empty_database" 42 "''approved''"]
    update_status_absent [of "online empty_database" 42 "''disabled''"]
  by (simp add: online_def empty_database_def)

subsection \<open>Deleting\<close>

text \<open>
  C7. When the query succeeds, \<^verbatim>\<open>deleteUser\<close> and \<^verbatim>\<open>deletePlace\<close> return normally for every
  identity, stored or not. If no row has the identity, the database is left unchanged, and
  deleting the same identity a second time changes nothing more.
\<close>

theorem delete_absent_ok:
  assumes up: "\<not> faults w (calls w)"
  shows "fst (deleteUser i w) = Inr () \<and>
         (i \<notin> user_id ` set (users_tbl (db w)) \<longrightarrow>
            deleteUser i w = (Inr (), w\<lparr>calls := Suc (calls w)\<rparr>)) \<and>
         (\<not> faults w (Suc (calls w)) \<longrightarrow>
            fst (deleteUser i (snd (deleteUser i w))) = Inr () \<and>
            db (snd (deleteUser i (snd (deleteUser i w)))) = db (snd (deleteUser i w))) \<and>
         fst (deletePlace i w) = Inr () \<and>
         (i \<notin> place_id ` set (places_tbl (db w)) \<longrightarrow>
            deletePlace i w = (Inr (), w\<lparr>calls := Suc (calls w)\<rparr>)) \<and>
         (\<not> faults w (Suc (calls w)) \<longrightarrow>
            fst (deletePlace i (snd (deletePlace i w))) = Inr () \<and>
            db (snd (deletePlace i (snd (deletePlace i w)))) = db (snd (deletePlace i w)))"
  using up
  by (simp add: deleteUser_def deletePlace_def db_call_ok filter_absent)

theorem delete_absent_ok_witness:
  "deleteUser 9 (online empty_database) = (Inr (), (online empty_database)\<lparr>calls := 1\<rparr>) \<and>
   deletePlace 9 (online empty_database) = (Inr (), (online empty_database)\<lparr>calls := 1\<rparr>)"
  using delete_absent_ok [of "online empty_database" 9]
  by (simp add: online_def empty_database_def)

subsection \<open>Updating the status of a stored row\<close>

lemma first_row_updated:
  assumes keep: "\<And>r. f (g r) = f r" and present: "k \<in> f ` set rows"
  shows "\<exists>u \<in> set rows. f u = k \<and> first_row (filter (\<lambda>r. f r = k) rows) = Some u \<and>
           first_row (filter (\<lambda>r. f r = k) (map (\<lambda>r. if f r = k then g r else r) rows)) =
             Some (g u)"
  using present
proof (induction rows)
  case Nil
  then show ?case by simp
next
  case (Cons r rows)
  show ?case
  proof (cases "f r = k")
    case True
    then show ?thesis by (auto simp: first_row_def keep)
  next
    case False
    with Cons.prems have "k \<in> f ` set rows" by auto
    from Cons.IH [OF this] False show ?thesis by (auto simp: first_row_def)
  qed
qed

lemma wf_table_unique:
  assumes "wf_table f rows seq" and "r \<in> set rows" and "r' \<in> set rows" and "f r = f r'"
  shows "r = r'"
proof -
  from assms(1) have "inj_on f (set rows)"
    by (simp add: wf_table_def distinct_map)
  with assms(2-4) show ?thesis by (auto dest: inj_onD)
qed

lemma updateUserStatus_frame:
  assumes up: "\<not> faults w (calls w)" and present: "i \<in> user_id ` set (users_tbl (db w))"
  shows "\<exists>u w'. u \<in> set (users_tbl (db w)) \<and> user_id u = i \<and>
           getUser i w = (Inr (Some u), w\<lparr>calls := Suc (calls w)\<rparr>) \<and>
           updateUserStatus i status w = (Inr (Some (u\<lparr>user_status := status\<rparr>)), w') \<and>
           length (users_tbl (db w')) = length (users_tbl (db w)) \<and>
           (\<forall>n < length (users_tbl (db w)).
              users_tbl (db w') ! n =
                (if user_id (users_tbl (db w) ! n) = i
                 then (users_tbl (db w) ! n)\<lparr>user_status := status\<rparr>
                 else users_tbl (db w) ! n)) \<and>
           (wf_database (db w) \<longrightarrow>
              (\<forall>n < length (users_tbl (db w)).
                 users_tbl (db w) ! n \<noteq> u \<longrightarrow> users_tbl (db w') ! n = users_tbl (db w) ! n)) \<and>
           db w' = (db w)\<lparr>users_tbl := users_tbl (db w')\<rparr>"
proof -
  let ?rows = "users_tbl (db w)"
  let ?rows' = "map (\<lambda>r. if user_id r = i then r\<lparr>user_status := status\<rparr> else r) ?rows"
  let ?w' = "w\<lparr>db := (db w)\<lparr>users_tbl := ?rows'\<rparr>, calls := Suc (calls w)\<rparr>"
  from first_row_updated [of user_id "\<lambda>r. r\<lparr>user_status := status\<rparr>" i ?rows] present
  obtain u where mem: "u \<in> set ?rows" and ident: "user_id u = i"
    and before: "first_row (filter (\<lambda>r. user_id r = i) ?rows) = Some u"
    and after: "first_row (filter (\<lambda>r. user_id r = i) ?rows') = Some (u\<lparr>user_status := status\<rparr>)"
    by auto
  have upd: "updateUserStatus i status w = (Inr (Some (u\<lparr>user_status := status\<rparr>)), ?w')"
    using up after by (simp add: updateUserStatus_def db_call_ok Let_def)
  have others: "?rows ! n \<noteq> u \<longrightarrow> ?rows' ! n = ?rows ! n"
    if wf: "wf_database (db w)" and n: "n < length ?rows" for n
  proof
    assume ne: "?rows ! n \<noteq> u"
    from wf have "wf_table user_id ?rows (users_seq (db w))"
      by (simp add: wf_database_def)
    moreover from n have "?rows ! n \<in> set ?rows"
      by (rule nth_mem)
    ultimately have "user_id (?rows ! n) \<noteq> i"
      using mem ident ne by (auto dest: wf_table_unique)
    with n show "?rows' ! n = ?rows ! n"
      by simp
  qed
  show ?thesis
  proof (intro exI conjI)
    show "u \<in> set ?rows" by (rule mem)
    show "user_id u = i" by (rule ident)
    show "getUser i w = (Inr (Some u), w\<lparr>calls := Suc (calls w)\<rparr>)"
      using up before by (simp add: getUser_def db_call_ok)
    show "updateUserStatus i status w = (Inr (Some (u\<lparr>user_status := status\<rparr>)), ?w')"
      by (rule upd)
    show "length (users_tbl (db ?w')) = length ?rows"
      by simp
    show "\<forall>n < length ?rows.
            users_tbl (db ?w') ! n =
              (if user_id (?rows ! n) = i then (?rows ! n)\<lparr>user_status := status\<rparr> else ?rows ! n)"
      by simp
    show "wf_database (db w) \<longrightarrow>
            (\<forall>n < length ?rows. ?rows ! n \<noteq> u \<longrightarrow> users_tbl (db ?w') ! n = ?rows ! n)"
      using others by simp
    show "db ?w' = (db w)\<lparr>users_tbl := users_tbl (db ?w')\<rparr>"
      by simp
  qed
qed

lemma updatePlaylistStatus_frame:
  assumes up: "\<not> faults w (calls w)" and present: "i \<in> playlist_id ` set (playlists_tbl (db w))"
  shows "\<exists>p w'. p \<in> set (playlists_tbl (db w)) \<and> playlist_id p = i \<and>
           updatePlaylistStatus i status w = (Inr (Some (p\<lparr>playlist_status := status\<rparr>)), w') \<and>
           length (playlists_tbl (db w')) = length (playlists_tbl (db w)) \<and>
           (\<forall>n < length (playlists_tbl (db w)).
              playlists_tbl (db w') ! n =
                (if playlist_id (playlists_tbl (db w) ! n) = i
                 then (playlists_tbl (db w) ! n)\<lparr>playlist_status := status\<rparr>
                 else playlists_tbl (db w) ! n)) \<and>
           (wf_database (db w) \<longrightarrow>
              (\<forall>n < length (playlists_tbl (db w)).
                 playlists_tbl (db w) ! n \<noteq> p \<longrightarrow> playlists_tbl (db w') ! n = playlists_tbl (db w) ! n)) \<and>
           db w' = (db w)\<lparr>playlists_tbl := playlists_tbl (db w')\<rparr>"
proof -
  let ?rows = "playlists_tbl (db w)"
  let ?rows' = "map (\<lambda>r. if playlist_id r = i then r\<lparr>playlist_status := status\<rparr> else r) ?rows"
  let ?w' = "w\<lparr>db := (db w)\<lparr>playlists_tbl := ?rows'\<rparr>, calls := Suc (calls w)\<rparr>"
  from first_row_updated [of playlist_id "\<lambda>r. r\<lparr>playlist_status := status\<rparr>" i ?rows] present
  obtain p where mem: "p \<in> set ?rows" and ident: "playlist_id p = i"
    and before: "first_row (filter (\<lambda>r. playlist_id r = i) ?rows) = Some p"
    and after: "first_row (filter (\<lambda>r. playlist_id r = i) ?rows') = Some (p\<lparr>playlist_status := status\<rparr>)"
    by auto
  have upd: "updatePlaylistStatus i status w = (Inr (Some (p\<lparr>playlist_status := status\<rparr>)), ?w')"
    using up after by (simp add: updatePlaylistStatus_def db_call_ok Let_def)
  have others: "?rows ! n \<noteq> p \<longrightarrow> ?rows' ! n = ?rows ! n"
    if wf: "wf_database (db w)" and n: "n < length ?rows" for n
  proof
    assume ne: "?rows ! n \<noteq> p"
    from wf have "wf_table playlist_id ?rows (playlists_seq (db w))"
      by (simp add: wf_database_def)
    moreover from n have "?rows ! n \<in> set ?rows"
      by (rule nth_mem)
    ultimately have "playlist_id (?rows ! n) \<noteq> i"
      using mem ident ne by (auto dest: wf_table_unique)
    with n show "?rows' ! n = ?rows ! n"
      by simp
  qed
  show ?thesis
  proof (intro exI conjI)
    show "p \<in> set ?rows" by (rule mem)
    show "playlist_id p = i" by (rule ident)
    show "updatePlaylistStatus i status w = (Inr (Some (p\<lparr>playlist_status := status\<rparr>)), ?w')"
      by (rule upd)
    show "length (playlists_tbl (db ?w')) = length ?rows"
      by simp
    show "\<forall>n < length ?rows.
            playlists_tbl (db ?w') ! n =
              (if playlist_id (?rows ! n) = i then (?rows ! n)\<lparr>playlist_status := status\<rparr> else ?rows ! n)"
      by simp
    show "wf_database (db w) \<longrightarrow>
            (\<forall>n < length ?rows. ?rows ! n \<noteq> p \<longrightarrow> playlists_tbl (db ?w') ! n = ?rows ! n)"
      using others by simp
    show "db ?w' = (db w)\<lparr>playlists_tbl := playlists_tbl (db ?w')\<rparr>"
      by simp
  qed
qed

lemma updateReviewStatus_frame:
  assumes up: "\<not> faults w (calls w)" and present: "i \<in> review_id ` set (reviews_tbl (db w))"
  shows "\<exists>r w'. r \<in> set (reviews_tbl (db w)) \<and> review_id r = i \<and>
           updateReviewStatus i status w = (Inr (Some (r\<lparr>review_status := status\<rparr>)), w') \<and>
           length (reviews_tbl (db w')) = length (reviews_tbl (db w)) \<and>
           (\<forall>n < length (reviews_tbl (db w)).
              reviews_tbl (db w') ! n =
                (if review_id (reviews_tbl (db w) ! n) = i
                 then (reviews_tbl (db w) ! n)\<lparr>review_status := status\<rparr>
                 else reviews_tbl (db w) ! n)) \<and>
           (wf_database (db w) \<longrightarrow>
              (\<forall>n < length (reviews_tbl (db w)).
                 reviews_tbl (db w) ! n \<noteq> r \<longrightarrow> reviews_tbl (db w') ! n = reviews_tbl (db w) ! n)) \<and>
           db w' = (db w)\<lparr>reviews_tbl := reviews_tbl (db w')\<rparr>"
proof -
  let ?rows = "reviews_tbl (db w)"
  let ?rows' = "map (\<lambda>r. if review_id r = i then r\<lparr>review_status := status\<rparr> else r) ?rows"
  let ?w' = "w\<lparr>db := (db w)\<lparr>reviews_tbl := ?rows'\<rparr>, calls := Suc (calls w)\<rparr>"
  from first_row_updated [of review_id "\<lambda>r. r\<lparr>review_status := status\<rparr>" i ?rows] present
  obtain r where mem: "r \<in> set ?rows" and ident: "review_id r = i"
    and before: "first_row (filter (\<lambda>r. review_id r = i) ?rows) = Some r"
    and after: "first_row (filter (\<lambda>r. review_id r = i) ?rows') = Some (r\<lparr>review_status := status\<rparr>)"
    by auto
  have upd: "updateReviewStatus i status w = (Inr (Some (r\<lparr>review_status := status\<rparr>)), ?w')"
    using up after by (simp add: updateReviewStatus_def db_call_ok Let_def)
  have others: "?rows ! n \<noteq> r \<longrightarrow> ?rows' ! n = ?rows ! n"
    if wf: "wf_database (db w)" and n: "n < length ?rows" for n
  proof
    assume ne: "?rows ! n \<noteq> r"
    from wf have "wf_table review_id ?rows (reviews_seq (db w))"
      by (simp add: wf_database_def)
    moreover from n have "?rows ! n \<in> set ?rows"
      by (rule nth_mem)
    ultimately have "review_id (?rows ! n) \<noteq> i"
      using mem ident ne by (auto dest: wf_table_unique)
    with n show "?rows' ! n = ?rows ! n"
      by simp
  qed
  show ?thesis
  proof (intro exI conjI)
    show "r \<in> set ?rows" by (rule mem)
    show "review_id r = i" by (rule ident)
    show "updateReviewStatus i status w = (Inr (Some (r\<lparr>review_status := status\<rparr>)), ?w')"
      by (rule upd)
    show "length (reviews_tbl (db ?w')) = length ?rows"
      by simp
    show "\<forall>n < length ?rows.
            reviews_tbl (db ?w') ! n =
              (if review_id (?rows ! n) = i then (?rows ! n)\<lparr>review_status := status\<rparr> else ?rows ! n)"
      by simp
    show "wf_database (db w) \<longrightarrow>
            (\<forall>n < length ?rows. ?rows ! n \<noteq> r \<longrightarrow> reviews_tbl (db ?w') ! n = ?rows ! n)"
      using others by simp
    show "db ?w' = (db w)\<lparr>reviews_tbl := reviews_tbl (db ?w')\<rparr>"
      by simp
  qed
qed

lemma updatePhotoStatus_frame:
  assumes up: "\<not> faults w (calls w)" and present: "i \<in> photo_id ` set (photos_tbl (db w))"
  shows "\<exists>p w'. p \<in> set (photos_tbl (db w)) \<and> photo_id p = i \<and>
           updatePhotoStatus i status w = (Inr (Some (p\<lparr>photo_status := status\<rparr>)), w') \<and>
           length (photos_tbl (db w')) = length (photos_tbl (db w)) \<and>
           (\<forall>n < length (photos_tbl (db w)).
              photos_tbl (db w') ! n =
                (if photo_id (photos_tbl (db w) ! n) = i
                 then (photos_tbl (db w) ! n)\<lparr>photo_status := status\<rparr>
                 else photos_tbl (db w) ! n)) \<and>
           (wf_database (db w) \<longrightarrow>
              (\<forall>n < length (photos_tbl (db w)).
                 photos_tbl (db w) ! n \<noteq> p \<longrightarrow> photos_tbl (db w') ! n = photos_tbl (db w) ! n)) \<and>
           db w' = (db w)\<lparr>photos_tbl := photos_tbl (db w')\<rparr>"
proof -
  let ?rows = "photos_tbl (db w)"
  let ?rows' = "map (\<lambda>r. if photo_id r = i then r\<lparr>photo_status := status\<rparr> else r) ?rows"
  let ?w' = "w\<lparr>db := (db w)\<lparr>photos_tbl := ?rows'\<rparr>, calls := Suc (calls w)\<rparr>"
  from first_row_updated [of photo_id "\<lambda>r. r\<lparr>photo_status := status\<rparr>" i ?rows] present
  obtain p where mem: "p \<in> set ?rows" and ident: "photo_id p = i"
    and before: "first_row (filter (\<lambda>r. photo_id r = i) ?rows) = Some p"
    and after: "first_row (filter (\<lambda>r. photo_id r = i) ?rows') = Some (p\<lparr>photo_status := status\<rparr>)"
    by auto
  have upd: "updatePhotoStatus i status w = (Inr (Some (p\<lparr>photo_status := status\<rparr>)), ?w')"
    using up after by (simp add: updatePhotoStatus_def db_call_ok Let_def)
  have others: "?rows ! n \<noteq> p \<longrightarrow> ?rows' ! n = ?rows ! n"
    if wf: "wf_database (db w)" and n: "n < length ?rows" for n
  proof
    assume ne: "?rows ! n \<noteq> p"
    from wf have "wf_table photo_id ?rows (photos_seq (db w))"
      by (simp add: wf_database_def)
    moreover from n have "?rows ! n \<in> set ?rows"
      by (rule nth_mem)
    ultimately have "photo_id (?rows ! n) \<noteq> i"
      using mem ident ne by (auto dest: wf_table_unique)
    with n show "?rows' ! n = ?rows ! n"
      by simp
  qed
  show ?thesis
  proof (intro exI conjI)
    show "p \<in> set ?rows" by (rule mem)
    show "photo_id p = i" by (rule ident)
    show "updatePhotoStatus i status w = (Inr (Some (p\<lparr>photo_status := status\<rparr>)), ?w')"
      by (rule upd)
    show "length (photos_tbl (db ?w')) = length ?rows"
      by simp
    show "\<forall>n < length ?rows.
            photos_tbl (db ?w') ! n =
              (if photo_id (?rows ! n) = i then (?rows ! n)\<lparr>photo_status := status\<rparr> else ?rows ! n)"
      by simp
    show "wf_database (db w) \<longrightarrow>
            (\<forall>n < length ?rows. ?rows ! n \<noteq> p \<longrightarrow> photos_tbl (db ?w') ! n = ?rows ! n)"
      using others by simp
    show "db ?w' = (db w)\<lparr>photos_tbl := photos_tbl (db ?w')\<rparr>"
      by simp
  qed
qed

text \<open>
  C5. When the query succeeds and a row of identity \<open>i\<close> is stored, each of the four status
  updates (users, playlists, reviews, photos) returns that row with its status replaced by the
  given value and every other field as before. In the table, the rows of identity \<open>i\<close> have
  their status replaced in place and every row of another identity is as before; under the key
  invariant the returned row is the only one that changes. The other tables and all sequences
  are as before.
\<close>

theorem update_status_frame:
  assumes up: "\<not> faults w (calls w)"
  shows "(i \<in> user_id ` set (users_tbl (db w)) \<longrightarrow>
            (\<exists>u w'. u \<in> set (users_tbl (db w)) \<and> user_id u = i \<and>
               getUser i w = (Inr (Some u), w\<lparr>calls := Suc (calls w)\<rparr>) \<and>
               updateUserStatus i status w = (Inr (Some (u\<lparr>user_status := status\<rparr>)), w') \<and>
               length (users_tbl (db w')) = length (users_tbl (db w)) \<and>
               (\<forall>n < length (users_tbl (db w)).
                  users_tbl (db w') ! n =
                    (if user_id (users_tbl (db w) ! n) = i
                     then (users_tbl (db w) ! n)\<lparr>user_status := status\<rparr>
                     else users_tbl (db w) ! n)) \<and>
               (wf_database (db w) \<longrightarrow>
                  (\<forall>n < length (users_tbl (db w)).
                     users_tbl (db w) ! n \<noteq> u \<longrightarrow> users_tbl (db w') ! n = users_tbl (db w) ! n)) \<and>
               db w' = (db w)\<lparr>users_tbl := users_tbl (db w')\<rparr>)) \<and>
         (i \<in> playlist_id ` set (playlists_tbl (db w)) \<longrightarrow>
            (\<exists>p w'. p \<in> set (playlists_tbl (db w)) \<and> playlist_id p = i \<and>
               updatePlaylistStatus i status w = (Inr (Some (p\<lparr>playlist_status := status\<rparr>)), w') \<and>
               length (playlists_tbl (db w')) = length (playlists_tbl (db w)) \<and>
               (\<forall>n < length (playlists_tbl (db w)).
                  playlists_tbl (db w') ! n =
                    (if playlist_id (playlists_tbl (db w) ! n) = i
                     then (playlists_tbl (db w) ! n)\<lparr>playlist_status := status\<rparr>
                     else playlists_tbl (db w) ! n)) \<and>
               (wf_database (db w) \<longrightarrow>
                  (\<forall>n < length (playlists_tbl (db w)).
                     playlists_tbl (db w) ! n \<noteq> p \<longrightarrow> playlists_tbl (db w') ! n = playlists_tbl (db w) ! n)) \<and>
               db w' = (db w)\<lparr>playlists_tbl := playlists_tbl (db w')\<rparr>)) \<and>
         (i \<in> review_id ` set (reviews_tbl (db w)) \<longrightarrow>
            (\<exists>r w'. r \<in> set (reviews_tbl (db w)) \<and> review_id r = i \<and>
               updateReviewStatus i status w = (Inr (Some (r\<lparr>review_status := status\<rparr>)), w') \<and>
               length (reviews_tbl (db w')) = length (reviews_tbl (db w)) \<and>
               (\<forall>n < length (reviews_tbl (db w)).
                  reviews_tbl (db w') ! n =
                    (if review_id (reviews_tbl (db w) ! n) = i
                     then (reviews_tbl (db w) ! n)\<lparr>review_status := status\<rparr>
                     else reviews_tbl (db w) ! n)) \<and>
               (wf_database (db w) \<longrightarrow>
                  (\<forall>n < length (reviews_tbl (db w)).
                     reviews_tbl (db w) ! n \<noteq> r \<longrightarrow> reviews_tbl (db w') ! n = reviews_tbl (db w) ! n)) \<and>
               db w' = (db w)\<lparr>reviews_tbl := reviews_tbl (db w')\<rparr>)) \<and>
         (i \<in> photo_id ` set (photos_tbl (db w)) \<longrightarrow>
            (\<exists>p w'. p \<in> set (photos_tbl (db w)) \<and> photo_id p = i \<and>
               updatePhotoStatus i status w = (Inr (Some (p\<lparr>photo_status := status\<rparr>)), w') \<and>
               length (photos_tbl (db w')) = length (photos_tbl (db w)) \<and>
               (\<forall>n < length (photos_tbl (db w)).
                  photos_tbl (db w') ! n =
                    (if photo_id (photos_tbl (db w) ! n) = i
                     then (photos_tbl (db w) ! n)\<lparr>photo_status := status\<rparr>
                     else photos_tbl (db w) ! n)) \<and>
               (wf_database (db w) \<longrightarrow>
                  (\<forall>n < length (photos_tbl (db w)).
                     photos_tbl (db w) ! n \<noteq> p \<longrightarrow> photos_tbl (db w') ! n = photos_tbl (db w) ! n)) \<and>
               db w' = (db w)\<lparr>photos_tbl := photos_tbl (db w')\<rparr>))"
  using updateUserStatus_frame [OF up, of i status]
    updatePlaylistStatus_frame [OF up, of i status]
    updateReviewStatus_frame [OF up, of i status]
    updatePhotoStatus_frame [OF up, of i status]
  by blast

theorem update_status_frame_witness:
  "updateUserStatus 1 ''disabled''
     (snd (createUser \<lparr>new_user_name = ''A'', new_user_email = ''a@example.com'',
             new_user_role = ''user'', new_user_status = ''active''\<rparr> (online empty_database))) =
   (Inr (Some \<lparr>user_id = 1, user_name = ''A'', user_email = ''a@example.com'',
                user_role = ''user'', user_status = ''disabled'', user_joinedAt = 0\<rparr>),
    \<lparr>db = empty_database
       \<lparr>users_tbl := [\<lparr>user_id = 1, user_name = ''A'', user_email = ''a@example.com'',
                        user_role = ''user'', user_status = ''disabled'', user_joinedAt = 0\<rparr>],
        users_seq := 2\<rparr>,
     calls = 2, faults = (\<lambda>k. False), clock = (\<lambda>k. k)\<rparr>)"
  using update_status_frame
    [of "snd (createUser \<lparr>new_user_name = ''A'', new_user_email = ''a@example.com'',
             new_user_role = ''user'', new_user_status = ''active''\<rparr> (online empty_database))"
        1 "''disabled''"]
  by (simp add: createUser_def updateUserStatus_def db_call_def online_def empty_database_def
      Let_def first_row_def)

subsection \<open>The key invariant\<close>

text \<open>
  The invariant holds of the empty database and every modelled method of the storage layer
  keeps it, whether its query succeeds or fails.
\<close>

lemma wf_table_fresh: "wf_table f rows seq \<Longrightarrow> seq \<notin> f ` set rows"
  by (auto simp: wf_table_def list_all_iff)

lemma wf_table_append:
  "wf_table f rows seq \<Longrightarrow> f r = seq \<Longrightarrow> wf_table f (rows @ [r]) (seq + 1)"
  by (fastforce simp: wf_table_def list_all_iff)

lemma map_ident_upd:
  assumes "\<And>r. f (g r) = f r"
  shows "map f (map (\<lambda>r. if f r = k then g r else r) rows) = map f rows"
  by (induction rows) (simp_all add: assms)

lemma wf_table_map_upd:
  assumes keep: "\<And>r. f (g r) = f r" and wf: "wf_table f rows seq"
  shows "wf_table f (map (\<lambda>r. if f r = k then g r else r) rows) seq"
proof -
  have "map f (map (\<lambda>r. if f r = k then g r else r) rows) = map f rows"
    by (rule map_ident_upd) (rule keep)
  moreover have "list_all (\<lambda>r. f r < seq) (map (\<lambda>r. if f r = k then g r else r) rows)"
    using wf by (auto simp: wf_table_def list_all_iff keep)
  ultimately show ?thesis using wf unfolding wf_table_def by (simp del: map_map)
qed

lemma wf_table_filter: "wf_table f rows seq \<Longrightarrow> wf_table f (filter P rows) seq"
  by (auto simp: wf_table_def list_all_iff distinct_map_filter)

lemma wf_empty_database: "wf_database empty_database"
  by (simp add: wf_database_def wf_table_def empty_database_def)

lemma db_call_db:
  "db (snd (db_call q w)) = (if faults w (calls w) then db w else snd (q (clock w (calls w)) (db w)))"
  by (simp add: db_call_def split: prod.splits)

lemma wf_create:
  assumes "wf_database (db w)"
  shows "wf_database (db (snd (createUser u w)))"
    and "wf_database (db (snd (createPlace p w)))"
    and "wf_database (db (snd (createPlaylist l w)))"
    and "wf_database (db (snd (createTrip t w)))"
    and "wf_database (db (snd (createReview r w)))"
    and "wf_database (db (snd (createPhoto h w)))"
  using assms
  by (simp_all add: createUser_def createPlace_def createPlaylist_def createTrip_def
      createReview_def createPhoto_def db_call_db Let_def wf_database_def wf_table_append)

lemma wf_update_status:
  assumes "wf_database (db w)"
  shows "wf_database (db (snd (updateUserStatus i status w)))"
    and "wf_database (db (snd (updatePlaylistStatus i status w)))"
    and "wf_database (db (snd (updateReviewStatus i status w)))"
    and "wf_database (db (snd (updatePhotoStatus i status w)))"
  using assms
  by (simp_all add: updateUserStatus_def updatePlaylistStatus_def updateReviewStatus_def
      updatePhotoStatus_def db_call_db Let_def wf_database_def wf_table_map_upd)

lemma wf_delete:
  assumes "wf_database (db w)"
  shows "wf_database (db (snd (deleteUser i w)))"
    and "wf_database (db (snd (deletePlace i w)))"
  using assms
  by (simp_all add: deleteUser_def deletePlace_def db_call_db wf_database_def wf_table_filter)

subsection \<open>Create, then read\<close>

lemma filter_fresh: "k \<notin> f ` set rows \<Longrightarrow> filter (\<lambda>x. f x = k) rows = []"
  by (induction rows) auto

lemma createUser_roundtrip:
  assumes wf: "wf_database (db w)"
    and up: "\<not> faults w (calls w)" "\<not> faults w (Suc (calls w))"
  shows "\<exists>row w1 w2. createUser u w = (Inr row, w1) \<and>
           getUser (user_id row) w1 = (Inr (Some row), w2) \<and> db w2 = db w1 \<and>
           user_name row = new_user_name u \<and> user_email row = new_user_email u \<and>
           user_role row = new_user_role u \<and> user_status row = new_user_status u"
proof -
  from wf have "users_seq (db w) \<notin> user_id ` set (users_tbl (db w))"
    by (simp add: wf_database_def wf_table_fresh)
  then show ?thesis
    using up
    by (simp add: createUser_def getUser_def db_call_ok Let_def filter_fresh first_row_def)
qed

lemma createPlace_roundtrip:
  assumes wf: "wf_database (db w)"
    and up: "\<not> faults w (calls w)" "\<not> faults w (Suc (calls w))"
  shows "\<exists>row w1 w2. createPlace p w = (Inr row, w1) \<and>
           getPlace (place_id row) w1 = (Inr (Some row), w2) \<and> db w2 = db w1 \<and>
           place_name row = new_place_name p \<and>
           place_description row = new_place_description p \<and>
           place_location row = new_place_location p \<and>
           place_category row = new_place_category p \<and>
           place_imageUrl row = new_place_imageUrl p \<and>
           place_rating row = new_place_rating p \<and>
           place_status row = new_place_status p \<and>
           place_amenities row = new_place_amenities p \<and>
           place_coordinates row = new_place_coordinates p"
proof -
  from wf have "places_seq (db w) \<notin> place_id ` set (places_tbl (db w))"
    by (simp add: wf_database_def wf_table_fresh)
  then show ?thesis
    using up
    by (simp add: createPlace_def getPlace_def db_call_ok Let_def filter_fresh first_row_def)
qed

text \<open>
  C6. In a database that satisfies the key invariant, when both queries succeed,
  \<^verbatim>\<open>createUser\<close> returns a row, \<^verbatim>\<open>getUser\<close> with the identity of that row returns the same
  row, and the row holds every caller-supplied field of the input. The same holds for
  \<^verbatim>\<open>createPlace\<close> and \<^verbatim>\<open>getPlace\<close>.
\<close>

theorem create_get_roundtrip:
  assumes wf: "wf_database (db w)"
    and up: "\<not> faults w (calls w)" "\<not> faults w (Suc (calls w))"
  shows "(\<exists>row w1 w2. createUser u w = (Inr row, w1) \<and>
           getUser (user_id row) w1 = (Inr (Some row), w2) \<and> db w2 = db w1 \<and>
           user_name row = new_user_name u \<and> user_email row = new_user_email u \<and>
           user_role row = new_user_role u \<and> user_status row = new_user_status u) \<and>
         (\<exists>row w1 w2. createPlace p w = (Inr row, w1) \<and>
           getPlace (place_id row) w1 = (Inr (Some row), w2) \<and> db w2 = db w1 \<and>
           place_name row = new_place_name p \<and>
           place_description row = new_place_description p \<and>
           place_location row = new_place_location p \<and>
           place_category row = new_place_category p \<and>
           place_imageUrl row = new_place_imageUrl p \<and>
           place_rating row = new_place_rating p \<and>
           place_status row = new_place_status p \<and>
           place_amenities row = new_place_amenities p \<and>
           place_coordinates row = new_place_coordinates p)"
  using createUser_roundtrip [OF wf up, of u] createPlace_roundtrip [OF wf up, of p]
  by (rule conjI)

theorem create_get_roundtrip_witness:
  "wf_database (db (online empty_database)) \<and>
   (\<exists>row w1 w2.
      createUser \<lparr>new_user_name = ''A'', new_user_email = ''a@example.com'',
        new_user_role = ''user'', new_user_status = ''active''\<rparr> (online empty_database) =
        (Inr row, w1) \<and>
      getUser (user_id row) w1 = (Inr (Some row), w2) \<and> user_name row = ''A'' \<and>
      user_status row = ''active'') \<and>
   (\<exists>row w1 w2.
      createPlace \<lparr>new_place_name = ''P'', new_place_description = ''a place'',
        new_place_location = ''Ella'', new_place_category = ''Nature'',
        new_place_imageUrl = ''https://example.com/p.png'', new_place_rating = ''4.9'',
        new_place_status = ''active'', new_place_amenities = ''[]'',
        new_place_coordinates = ''{}''\<rparr> (online empty_database) = (Inr row, w1) \<and>
      getPlace (place_id row) w1 = (Inr (Some row), w2) \<and> place_name row = ''P'' \<and>
      place_coordinates row = ''{}'')"
  using create_get_roundtrip
    [of "online empty_database"
        "\<lparr>new_user_name = ''A'', new_user_email = ''a@example.com'',
          new_user_role = ''user'', new_user_status = ''active''\<rparr>"
        "\<lparr>new_place_name = ''P'', new_place_description = ''a place'',
          new_place_location = ''Ella'', new_place_category = ''Nature'',
          new_place_imageUrl = ''https://example.com/p.png'', new_place_rating = ''4.9'',
          new_place_status = ''active'', new_place_amenities = ''[]'',
          new_place_coordinates = ''{}''\<rparr>"]
    wf_empty_database
  by (simp add: online_def) blast

subsection \<open>Seeding\<close>

lemma seedDatabase_never_throws: "fst (seedDatabase stringify w) = Inr ()"
  by (simp add: seedDatabase_def io_catch_def io_return_def split: prod.splits sum.splits)

lemma getUsers_result:
  "getUsers w =
     (if faults w (calls w) then (Inl DbError, w\<lparr>calls := Suc (calls w)\<rparr>)
      else (Inr (order_by_desc user_joinedAt (users_tbl (db w))), w\<lparr>calls := Suc (calls w)\<rparr>))"
  by (simp add: getUsers_def db_call_def)

lemma order_by_desc_Nil: "order_by_desc col rows = [] \<longleftrightarrow> rows = []"
  by (metis length_0_conv length_order_by_desc)

lemma seedDatabase_nonempty:
  assumes "users_tbl (db w) \<noteq> []"
  shows "seedDatabase stringify w = (Inr (), w\<lparr>calls := Suc (calls w)\<rparr>)"
  using assms
  by (simp add: seedDatabase_def io_catch_def io_bind_def io_return_def getUsers_result
      order_by_desc_Nil)

lemma seedDatabase_empty:
  assumes empty: "users_tbl (db w) = []"
    and up: "\<forall>k<16. \<not> faults w (calls w + k)"
  shows "\<exists>user1 user2 user3 user4 place1 place2 place3 playlist1 playlist2 trip1 trip2 trip3
           review1 review2 photo1 w'.
           seedDatabase stringify w = (Inr (), w') \<and>
           users_tbl (db w') = [user1, user2, user3, user4] \<and>
           places_tbl (db w') = places_tbl (db w) @ [place1, place2, place3] \<and>
           playlists_tbl (db w') = playlists_tbl (db w) @ [playlist1, playlist2] \<and>
           trips_tbl (db w') = trips_tbl (db w) @ [trip1, trip2, trip3] \<and>
           reviews_tbl (db w') = reviews_tbl (db w) @ [review1, review2] \<and>
           photos_tbl (db w') = photos_tbl (db w) @ [photo1] \<and>
           map user_id [user1, user2, user3, user4] =
             [users_seq (db w), users_seq (db w) + 1, users_seq (db w) + 2,
              users_seq (db w) + 3] \<and>
           map user_name [user1, user2, user3, user4] =
             [''Sarah Miller'', ''John Doe'', ''TravelSL'', ''Mike Smith''] \<and>
           map place_id [place1, place2, place3] =
             [places_seq (db w), places_seq (db w) + 1, places_seq (db w) + 2] \<and>
           map place_name [place1, place2, place3] =
             [''Secret Beach Cove'', ''Hidden Waterfall Trail'', ''Ancient Temple Ruins''] \<and>
           playlist_creatorId playlist1 = user_id user3 \<and>
           playlist_creatorName playlist1 = user_name user3 \<and>
           playlist_creatorId playlist2 = user_id user2 \<and>
           playlist_creatorName playlist2 = user_name user2 \<and>
           map trip_userId [trip1, trip2, trip3] = [user_id user1, user_id user2, user_id user1] \<and>
           review_userId review1 = user_id user1 \<and> review_userName review1 = user_name user1 \<and>
           review_placeId review1 = place_id place1 \<and>
           review_placeName review1 = place_name place1 \<and>
           review_userId review2 = user_id user2 \<and> review_userName review2 = user_name user2 \<and>
           review_placeId review2 = place_id place2 \<and>
           review_placeName review2 = place_name place2 \<and>
           photo_uploaderId photo1 = user_id user1 \<and>
           photo_uploaderName photo1 = user_name user1 \<and>
           photo_relatedId photo1 = place_id place1"
proof -
  have f: "\<not> faults w (calls w)"
    "\<not> faults w (Suc (calls w))"
    "\<not> faults w (Suc (Suc (calls w)))"
    "\<not> faults w (Suc (Suc (Suc (calls w))))"
    "\<not> faults w (Suc (Suc (Suc (Suc (calls w)))))"
    "\<not> faults w (Suc (Suc (Suc (Suc (Suc (calls w))))))"
    "\<not> faults w (Suc (Suc (Suc (Suc (Suc (Suc (calls w)))))))"
    "\<not> faults w (Suc (Suc (Suc (Suc (Suc (Suc (Suc (calls w))))))))"
    "\<not> faults w (Suc (Suc (Suc (Suc (Suc (Suc (Suc (Suc (calls w)))))))))"
    "\<not> faults w (Suc (Suc (Suc (Suc (Suc (Suc (Suc (Suc (Suc (calls w))))))))))"
    "\<not> faults w (Suc (Suc (Suc (Suc (Suc (Suc (Suc (Suc (Suc (Suc (calls w)))))))))))"
    "\<not> faults w (Suc (Suc (Suc (Suc (Suc (Suc (Suc (Suc (Suc (Suc (Suc (calls w))))))))))))"
    "\<not> faults w (Suc (Suc (Suc (Suc (Suc (Suc (Suc (Suc (Suc (Suc (Suc (Suc (calls w)))))))))))))"
    "\<not> faults w (Suc (Suc (Suc (Suc (Suc (Suc (Suc (Suc (Suc (Suc (Suc (Suc (Suc (calls w))))))))))))))"
    "\<not> faults w (Suc (Suc (Suc (Suc (Suc (Suc (Suc (Suc (Suc (Suc (Suc (Suc (Suc (Suc (calls w)))))))))))))))"
    "\<not> faults w (Suc (Suc (Suc (Suc (Suc (Suc (Suc (Suc (Suc (Suc (Suc (Suc (Suc (Suc (Suc (calls w))))))))))))))))"
    using up [rule_format, of 0] up [rule_format, of 1] up [rule_format, of 2] up [rule_format, of 3] up [rule_format, of 4] up [rule_format, of 5] up [rule_format, of 6] up [rule_format, of 7] up [rule_format, of 8] up [rule_format, of 9] up [rule_format, of 10] up [rule_format, of 11] up [rule_format, of 12] up [rule_format, of 13] up [rule_format, of 14] up [rule_format, of 15]
    by (simp_all add: eval_nat_numeral)
  show ?thesis
    using empty
    by (simp add: seedDatabase_def io_catch_def io_bind_def io_return_def getUsers_result
      order_by_desc_Nil createUser_def createPlace_def createPlaylist_def createTrip_def
      createReview_def createPhoto_def db_call_ok f Let_def)
qed


text \<open>
  C9. \<^verbatim>\<open>seedDatabase\<close> never throws: whatever queries fail, it returns normally. If the user
  table is not empty it changes no table. If the user table is empty and none of its sixteen
  queries fails, it leaves four users, and appends three places, two playlists, three trips,
  two reviews and one photo; the identities are those the sequences hand out, and the
  playlists, trips, reviews and the photo refer to the users and places through the rows that
  the earlier inserts returned.
\<close>

theorem seedDatabase_behaviour:
  "fst (seedDatabase stringify w) = Inr () \<and>
   (users_tbl (db w) \<noteq> [] \<longrightarrow> db (snd (seedDatabase stringify w)) = db w) \<and>
   (users_tbl (db w) = [] \<and> (\<forall>k<16. \<not> faults w (calls w + k)) \<longrightarrow>
      (\<exists>user1 user2 user3 user4 place1 place2 place3 playlist1 playlist2 trip1 trip2 trip3
             review1 review2 photo1 w'.
             seedDatabase stringify w = (Inr (), w') \<and>
             users_tbl (db w') = [user1, user2, user3, user4] \<and>
             places_tbl (db w') = places_tbl (db w) @ [place1, place2, place3] \<and>
             playlists_tbl (db w') = playlists_tbl (db w) @ [playlist1, playlist2] \<and>
             trips_tbl (db w') = trips_tbl (db w) @ [trip1, trip2, trip3] \<and>
             reviews_tbl (db w') = reviews_tbl (db w) @ [review1, review2] \<and>
             photos_tbl (db w') = photos_tbl (db w) @ [photo1] \<and>
             map user_id [user1, user2, user3, user4] =
               [users_seq (db w), users_seq (db w) + 1, users_seq (db w) + 2,
                users_seq (db w) + 3] \<and>
             map user_name [user1, user2, user3, user4] =
               [''Sarah Miller'', ''John Doe'', ''TravelSL'', ''Mike Smith''] \<and>
             map place_id [place1, place2, place3] =
               [places_seq (db w), places_seq (db w) + 1, places_seq (db w) + 2] \<and>
             map place_name [place1, place2, place3] =
               [''Secret Beach Cove'', ''Hidden Waterfall Trail'', ''Ancient Temple Ruins''] \<and>
             playlist_creatorId playlist1 = user_id user3 \<and>
             playlist_creatorName playlist1 = user_name user3 \<and>
             playlist_creatorId playlist2 = user_id user2 \<and>
             playlist_creatorName playlist2 = user_name user2 \<and>
             map trip_userId [trip1, trip2, trip3] = [user_id user1, user_id user2, user_id user1] \<and>
             review_userId review1 = user_id user1 \<and> review_userName review1 = user_name user1 \<and>
             review_placeId review1 = place_id place1 \<and>
             review_placeName review1 = place_name place1 \<and>
             review_userId review2 = user_id user2 \<and> review_userName review2 = user_name user2 \<and>
             review_placeId review2 = place_id place2 \<and>
             review_placeName review2 = place_name place2 \<and>
             photo_uploaderId photo1 = user_id user1 \<and>
             photo_uploaderName photo1 = user_name user1 \<and>
             photo_relatedId photo1 = place_id place1))"
proof (intro conjI impI)
  show "fst (seedDatabase stringify w) = Inr ()"
    by (rule seedDatabase_never_throws)
next
  assume "users_tbl (db w) \<noteq> []"
  then show "db (snd (seedDatabase stringify w)) = db w"
    by (simp add: seedDatabase_nonempty)
next
  assume "users_tbl (db w) = [] \<and> (\<forall>k<16. \<not> faults w (calls w + k))"
  then have "users_tbl (db w) = []" and "\<forall>k<16. \<not> faults w (calls w + k)"
    by simp_all
  then show "\<exists>user1 user2 user3 user4 place1 place2 place3 playlist1 playlist2 trip1 trip2 trip3
           review1 review2 photo1 w'.
           seedDatabase stringify w = (Inr (), w') \<and>
           users_tbl (db w') = [user1, user2, user3, user4] \<and>
           places_tbl (db w') = places_tbl (db w) @ [place1, place2, place3] \<and>
           playlists_tbl (db w') = playlists_tbl (db w) @ [playlist1, playlist2] \<and>
           trips_tbl (db w') = trips_tbl (db w) @ [trip1, trip2, trip3] \<and>
           reviews_tbl (db w') = reviews_tbl (db w) @ [review1, review2] \<and>
           photos_tbl (db w') = photos_tbl (db w) @ [photo1] \<and>
           map user_id [user1, user2, user3, user4] =
             [users_seq (db w), users_seq (db w) + 1, users_seq (db w) + 2,
              users_seq (db w) + 3] \<and>
           map user_name [user1, user2, user3, user4] =
             [''Sarah Miller'', ''John Doe'', ''TravelSL'', ''Mike Smith''] \<and>
           map place_id [place1, place2, place3] =
             [places_seq (db w), places_seq (db w) + 1, places_seq (db w) + 2] \<and>
           map place_name [place1, place2, place3] =
             [''Secret Beach Cove'', ''Hidden Waterfall Trail'', ''Ancient Temple Ruins''] \<and>
           playlist_creatorId playlist1 = user_id user3 \<and>
           playlist_creatorName playlist1 = user_name user3 \<and>
           playlist_creatorId playlist2 = user_id user2 \<and>
           playlist_creatorName playlist2 = user_name user2 \<and>
           map trip_userId [trip1, trip2, trip3] = [user_id user1, user_id user2, user_id user1] \<and>
           review_userId review1 = user_id user1 \<and> review_userName review1 = user_name user1 \<and>
           review_placeId review1 = place_id place1 \<and>
           review_placeName review1 = place_name place1 \<and>
           review_userId review2 = user_id user2 \<and> review_userName review2 = user_name user2 \<and>
           review_placeId review2 = place_id place2 \<and>
           review_placeName review2 = place_name place2 \<and>
           photo_uploaderId photo1 = user_id user1 \<and>
           photo_uploaderName photo1 = user_name user1 \<and>
           photo_relatedId photo1 = place_id place1"
    by (rule seedDatabase_empty)
qed

theorem seedDatabase_behaviour_witness:
  "users_tbl (db (online empty_database)) = [] \<and>
   faults (online empty_database) = (\<lambda>k. False) \<and>
   fst (seedDatabase (\<lambda>v. []) (online empty_database)) = Inr () \<and>
   length (users_tbl (db (snd (seedDatabase (\<lambda>v. []) (online empty_database))))) = 4 \<and>
   length (places_tbl (db (snd (seedDatabase (\<lambda>v. []) (online empty_database))))) = 3 \<and>
   length (playlists_tbl (db (snd (seedDatabase (\<lambda>v. []) (online empty_database))))) = 2 \<and>
   length (trips_tbl (db (snd (seedDatabase (\<lambda>v. []) (online empty_database))))) = 3 \<and>
   length (reviews_tbl (db (snd (seedDatabase (\<lambda>v. []) (online empty_database))))) = 2 \<and>
   length (photos_tbl (db (snd (seedDatabase (\<lambda>v. []) (online empty_database))))) = 1"
proof -
  have e: "users_tbl (db (online empty_database)) = []"
    by (simp add: online_def empty_database_def)
  have u: "\<forall>k<16. \<not> faults (online empty_database) (calls (online empty_database) + k)"
    by (simp add: online_def)
  have t: "places_tbl (db (online empty_database)) = []"
    "playlists_tbl (db (online empty_database)) = []"
    "trips_tbl (db (online empty_database)) = []"
    "reviews_tbl (db (online empty_database)) = []"
    "photos_tbl (db (online empty_database)) = []"
    by (simp_all add: online_def empty_database_def)
  have q: "faults (online empty_database) = (\<lambda>k. False)"
    by (simp add: online_def)
  from seedDatabase_behaviour [of "\<lambda>v. []" "online empty_database"] e u t q
  show ?thesis by auto
qed

subsection \<open>Validation failures in the create routes\<close>

lemma catch_ZodError:
  "fst (io_catch m
          (\<lambda>err. case err of
             ZodError errors \<Rightarrow>
               (case errors of [] \<Rightarrow> io_throw TypeError | e # _ \<Rightarrow> io_return (r e))
           | _ \<Rightarrow> io_throw err) w) \<noteq> Inl (ZodError (e # es))"
  by (auto simp: io_catch_def io_throw_def io_return_def
      split: prod.splits sum.splits exn.splits list.splits)

lemma places_create_answers_invalid:
  "fst (places_create stringify parse req_body w) \<noteq> Inl (ZodError (e # es))"
  unfolding places_create_def by (rule catch_ZodError)

lemma playlists_create_invalid:
  "parse b = Inl issues \<Longrightarrow> playlists_create parse b w = (Inl (ZodError issues), w)"
  by (simp add: playlists_create_def zod_parse_def io_bind_def io_throw_def)

lemma places_create_invalid:
  assumes "parse (Some (JObj [])) = Inl (e # es)"
  shows "places_create stringify parse (Some (JObj [])) w =
           (Inr \<lparr>res_status = 400, res_body = Message (issue_message e)\<rparr>, w)"
  using assms
  by (simp add: places_create_def zod_parse_def io_of_def io_catch_def io_bind_def io_throw_def
      io_return_def)

text \<open>
  C3. The specification asks that every create route answers 400 with the message of the first issue
  when validation fails. The route that creates a place does, and never lets a \<^verbatim>\<open>ZodError\<close>
  with an issue out; the route that creates a playlist calls the validator outside any
  \<^verbatim>\<open>try\<close>, so the \<^verbatim>\<open>ZodError\<close> leaves the handler and no 400 is sent. Here both handlers
  receive the body \<^verbatim>\<open>{}\<close> and a validator that rejects it with the issue "Required".
\<close>

theorem playlists_create_throws_on_invalid_body:
  "playlists_create (\<lambda>b. Inl [\<lparr>issue_path = [''name''], issue_message = ''Required''\<rparr>])
     (Some (JObj [])) (online empty_database) =
     (Inl (ZodError [\<lparr>issue_path = [''name''], issue_message = ''Required''\<rparr>]),
      online empty_database) \<and>
   places_create (\<lambda>v. []) (\<lambda>b. Inl [\<lparr>issue_path = [''name''], issue_message = ''Required''\<rparr>])
     (Some (JObj [])) (online empty_database) =
     (Inr \<lparr>res_status = 400, res_body = Message ''Required''\<rparr>, online empty_database)"
  by (simp add: playlists_create_def places_create_def zod_parse_def io_of_def io_catch_def
      io_bind_def io_throw_def io_return_def)

subsection \<open>The activity series\<close>

lemma Math_floor_value: "Math_floor x = \<lfloor>number_value x\<rfloor>"
proof (cases "0 \<le> expo x")
  case True
  then have "number_value x = of_int (mant x * 2 ^ nat (expo x))"
    by (simp add: number_value_def power_int_def)
  then show ?thesis using True by (simp add: Math_floor_def del: of_int_mult of_int_power)
next
  case False
  then have "number_value x = of_int (mant x) / of_int (2 ^ nat (- expo x))"
    by (simp add: number_value_def power_int_def field_simps)
  then show ?thesis using False
    by (simp add: Math_floor_def floor_divide_of_int_eq del: of_int_power)
qed

lemma round_half_even_nonneg: "0 \<le> m \<Longrightarrow> 0 \<le> round_half_even m s"
  by (simp add: round_half_even_def Let_def pos_imp_zdiv_nonneg_iff)

lemma round_half_even_upper: "2 * (round_half_even m s * 2 ^ s) \<le> 2 * m + 2 ^ s"
proof -
  define q r where "q = m div 2 ^ s" and "r = m mod 2 ^ s"
  have m: "m = q * 2 ^ s + r"
    by (simp only: q_def r_def div_mult_mod_eq)
  have r: "0 \<le> r" "r < 2 ^ s"
    by (simp_all add: r_def)
  consider "2 * r < 2 ^ s" | "2 ^ s < 2 * r" | "2 * r = 2 ^ s"
    by linarith
  then show ?thesis
  proof cases
    case 1
    then have "round_half_even m s = q"
      by (simp add: round_half_even_def Let_def q_def r_def)
    with m r show ?thesis by simp
  next
    case 2
    then have "round_half_even m s = q + 1"
      by (simp add: round_half_even_def Let_def q_def r_def)
    with m r 2 show ?thesis by (simp add: algebra_simps)
  next
    case 3
    then have "round_half_even m s = q \<or> round_half_even m s = q + 1"
      by (simp add: round_half_even_def Let_def q_def r_def)
    with m r 3 show ?thesis by (auto simp: algebra_simps)
  qed
qed


lemma round_half_even_zero: "round_half_even 0 s = 0"
  by (simp add: round_half_even_def)

lemma shift_small:
  assumes c: "0 < c" and m: "0 < m" "m < 2 ^ 53"
  shows "2 ^ nat (bitlen (m * c) - 53) < 2 * c"
proof (cases "bitlen (m * c) \<le> 53")
  case True
  with c show ?thesis by simp
next
  case False
  define s where "s = nat (bitlen (m * c) - 53)"
  from False have b: "bitlen (m * c) - 1 = 52 + int s"
    by (simp add: s_def)
  from c m have "0 < m * c" by simp
  from bitlen_bounds [OF this] b have "(2::int) ^ (52 + s) \<le> m * c"
    by (simp add: nat_add_distrib)
  also from c m have "m * c < 2 ^ 53 * c" by simp
  finally have "(2::int) ^ 52 * 2 ^ s < 2 ^ 52 * (2 * c)"
    by (simp add: power_add)
  then show ?thesis by (simp add: s_def)
qed

lemma product_below:
  assumes x: "is_number x" and lo: "0 \<le> number_value x" and hi: "number_value x < 1"
    and c: "0 < c"
  shows "0 \<le> number_value (number_mul x (Number c 0)) \<and>
         number_value (number_mul x (Number c 0)) < of_int c"
proof (cases "mant x = 0")
  case True
  with c show ?thesis
    by (simp add: number_mul_def number_value_def round_half_even_zero Let_def)
next
  case False
  define m e where "m = mant x" and "e = expo x"
  have "\<not> (2::real) powi expo x \<le> 0"
    by (simp add: not_le)
  with lo have "0 \<le> real_of_int m"
    by (auto simp: number_value_def zero_le_mult_iff m_def)
  with False have m: "0 < m" by (simp add: m_def)
  from x have m53: "m < 2 ^ 53" and e_lo: "- 1074 \<le> e"
    by (simp_all add: is_number_def m_def e_def abs_less_iff)
  have e_neg: "e < 0"
  proof (rule ccontr)
    assume "\<not> e < 0"
    then have "1 \<le> (2::real) powi e" by (simp add: power_int_def)
    moreover from m have "1 \<le> real_of_int m" by simp
    ultimately have "1 * 1 \<le> real_of_int m * 2 powi e"
      by (intro mult_mono) simp_all
    with hi show False by (simp add: number_value_def m_def e_def)
  qed
  define k where "k = nat (- e)"
  from e_neg have e_k: "e = - int k" by (simp add: k_def)
  have val: "number_value x = real_of_int m / 2 ^ k"
    by (simp add: number_value_def m_def [symmetric] e_def [symmetric] e_k power_int_minus
        divide_inverse)
  from hi have "real_of_int m < 2 ^ k"
    by (simp add: val)
  then have mk: "m < 2 ^ k"
    by (metis of_int_less_iff of_int_numeral of_int_power)
  define s where "s = nat (bitlen (m * c) - 53)"
  define r where "r = round_half_even (m * c) s"
  from c m have mc: "0 < m * c" by simp
  have s_eq: "nat (max (bitlen (m * c) - 53) (- 1074 - e)) = s"
    using e_lo by (simp add: s_def max_def)
  have res: "number_mul x (Number c 0) = Number r (e + int s)"
    using mc
    by (simp add: number_mul_def m_def [symmetric] e_def [symmetric] s_eq r_def Let_def
        del: int_nat_eq)
  have r0: "0 \<le> r"
    using mc by (simp add: r_def round_half_even_nonneg)
  have small: "2 ^ s < 2 * c"
    unfolding s_def by (rule shift_small [OF c m m53])
  have "2 * (r * 2 ^ s) \<le> 2 * (m * c) + 2 ^ s"
    unfolding r_def by (rule round_half_even_upper)
  also from mk c have "m * c \<le> (2 ^ k - 1) * c" by simp
  finally have "2 * (r * 2 ^ s) \<le> 2 * ((2 ^ k - 1) * c) + 2 ^ s"
    by simp
  with small have "2 * (r * 2 ^ s) < 2 * (c * 2 ^ k)"
    by (simp add: algebra_simps)
  then have int_lt: "r * 2 ^ s < c * 2 ^ k" by simp
  have "real_of_int (r * 2 ^ s) < real_of_int (c * 2 ^ k)"
    using int_lt by (simp only: of_int_less_iff)
  then have real_lt: "real_of_int r * 2 ^ s < real_of_int c * 2 ^ k"
    by simp
  have value_res: "number_value (Number r (e + int s)) = real_of_int r * 2 ^ s / 2 ^ k"
    by (simp add: number_value_def e_k power_int_diff power_int_add field_simps)
  have "real_of_int r * 2 ^ s / 2 ^ k < real_of_int c"
    using real_lt by (simp add: field_simps)
  moreover have "0 \<le> real_of_int r * 2 ^ s / 2 ^ k"
    using r0 by simp
  ultimately show ?thesis
    by (simp add: res value_res)
qed

lemma floor_product_bounds:
  assumes "is_number x" and "0 \<le> number_value x" and "number_value x < 1" and "0 < c"
  shows "0 \<le> Math_floor (number_mul x (Number c 0))"
    and "Math_floor (number_mul x (Number c 0)) \<le> c - 1"
proof -
  from product_below [OF assms]
  have lo: "0 \<le> number_value (number_mul x (Number c 0))"
    and hi: "number_value (number_mul x (Number c 0)) < of_int c"
    by simp_all
  from lo show "0 \<le> Math_floor (number_mul x (Number c 0))"
    by (simp add: Math_floor_value)
  from hi have "\<lfloor>number_value (number_mul x (Number c 0))\<rfloor> < c"
    by (simp add: floor_less_iff)
  then show "Math_floor (number_mul x (Number c 0)) \<le> c - 1"
    by (simp add: Math_floor_value)
qed

lemma activity_map_shape:
  assumes "\<forall>k. is_number (random k) \<and> 0 \<le> number_value (random k) \<and> number_value (random k) < 1"
  shows "map date (activity_map random k dates) = dates \<and>
         list_all (\<lambda>e. 10 \<le> trips e \<and> trips e \<le> 59 \<and> 5 \<le> playlists e \<and> playlists e \<le> 24)
           (activity_map random k dates)"
proof (induction dates arbitrary: k)
  case Nil
  then show ?case by simp
next
  case (Cons d dates)
  from assms have a: "is_number (random k)" "0 \<le> number_value (random k)"
    "number_value (random k) < 1"
    and b: "is_number (random (Suc k))" "0 \<le> number_value (random (Suc k))"
    "number_value (random (Suc k)) < 1"
    by simp_all
  from floor_product_bounds [OF a, of 50] floor_product_bounds [OF b, of 20] Cons.IH
  show ?case by simp
qed

text \<open>
  C8. Whatever Numbers in \<open>[0, 1)\<close> the random source yields, \<^verbatim>\<open>getActivityStats\<close> returns
  six entries, labelled "2024-01" to "2024-06" in this order, each with an integer trips count
  between 10 and 59 and an integer playlists count between 5 and 24.
\<close>

theorem activity_stats_shape:
  assumes "\<forall>k. is_number (random k) \<and> 0 \<le> number_value (random k) \<and> number_value (random k) < 1"
  shows "length (getActivityStats random) = 6 \<and>
         map date (getActivityStats random) =
           [''2024-01'', ''2024-02'', ''2024-03'', ''2024-04'', ''2024-05'', ''2024-06''] \<and>
         list_all (\<lambda>e. 10 \<le> trips e \<and> trips e \<le> 59 \<and> 5 \<le> playlists e \<and> playlists e \<le> 24)
           (getActivityStats random)"
proof -
  let ?dates = "[''2024-01'', ''2024-02'', ''2024-03'', ''2024-04'', ''2024-05'', ''2024-06'']"
  from activity_map_shape [OF assms, of 0 ?dates]
  have m: "map date (getActivityStats random) = ?dates"
    and b: "list_all (\<lambda>e. 10 \<le> trips e \<and> trips e \<le> 59 \<and> 5 \<le> playlists e \<and> playlists e \<le> 24)
              (getActivityStats random)"
    by (simp_all add: getActivityStats_def)
  from m have "length (map date (getActivityStats random)) = length ?dates"
    by (rule arg_cong)
  then have "length (getActivityStats random) = 6"
    by simp
  with m b show ?thesis by simp
qed

lemma largest_draw:
  "is_number (Number (2 ^ 53 - 1) (- 53)) \<and> 0 \<le> number_value (Number (2 ^ 53 - 1) (- 53)) \<and>
   number_value (Number (2 ^ 53 - 1) (- 53)) < 1"
  by (simp add: is_number_def number_value_def power_int_def power_divide)

lemma getActivityStats_largest_draw:
  "getActivityStats (\<lambda>k. Number (2 ^ 53 - 1) (- 53)) =
     [\<lparr>date = ''2024-01'', trips = 59, playlists = 24\<rparr>,
      \<lparr>date = ''2024-02'', trips = 59, playlists = 24\<rparr>,
      \<lparr>date = ''2024-03'', trips = 59, playlists = 24\<rparr>,
      \<lparr>date = ''2024-04'', trips = 59, playlists = 24\<rparr>,
      \<lparr>date = ''2024-05'', trips = 59, playlists = 24\<rparr>,
      \<lparr>date = ''2024-06'', trips = 59, playlists = 24\<rparr>]"
  by code_simp

theorem activity_stats_shape_witness:
  "(\<forall>k::nat. is_number (Number (2 ^ 53 - 1) (- 53)) \<and>
        0 \<le> number_value (Number (2 ^ 53 - 1) (- 53)) \<and>
        number_value (Number (2 ^ 53 - 1) (- 53)) < 1) \<and>
   length (getActivityStats (\<lambda>k. Number (2 ^ 53 - 1) (- 53))) = 6 \<and>
   map trips (getActivityStats (\<lambda>k. Number (2 ^ 53 - 1) (- 53))) = [59, 59, 59, 59, 59, 59] \<and>
   map playlists (getActivityStats (\<lambda>k. Number (2 ^ 53 - 1) (- 53))) =
     [24, 24, 24, 24, 24, 24]"
  using activity_stats_shape [of "\<lambda>k. Number (2 ^ 53 - 1) (- 53)"] largest_draw
    getActivityStats_largest_draw
  by simp

end
